theory Spec2Isabelle
  imports Main "HOL-Library.AList"
begin

text \<open>
  The schema and data engine of the content editor: node types, path resolution
  (\<open>findNode\<close>, \<open>treePathAndIndex\<close>), the choice of a free name, and the mutations
  \<open>addNode\<close>, \<open>deleteNode\<close>, \<open>renameNode\<close>, \<open>deleteFieldAt\<close> and \<open>updateFieldAt\<close> with the
  data migration they perform. Each function of the source is one definition under its
  own name; a name the source starts with an underscore ends with a prime here.
\<close>

section \<open>JavaScript values\<close>

text \<open>
  The engine works on JSON-like data. A value is \<open>undefined\<close>, \<open>null\<close>, a boolean, a
  number, a string, an array or a plain object.

  \<^item> \<open>JNum n\<close> is the number \<open>n\<close>, an integer that a double holds; \<open>JFloat s\<close> is a number
    that is no integer (a fraction or an infinity), given by the string JavaScript prints
    for it; \<open>JNaN\<close> is \<open>NaN\<close>.
  \<^item> A string is a sequence of code units; a \<open>char\<close> is a code unit below 256, read as
    the Latin-1 character of that code.
  \<^item> \<open>JObj kvs\<close> is a plain object: \<open>kvs\<close> lists its own properties in the order they
    were created, each key once. Its prototype is \<open>Object.prototype\<close>, whose members a
    read finds when the object has no own property of the name.
  \<^item> \<open>JNative x\<close> is a function or an object of the runtime, which no JSON document
    holds but a read of an inherited member returns: \<open>x\<close> is an expression that denotes
    it, as in \<open>JNative ''Object.prototype.toString''\<close>.
\<close>

datatype jv =
    JUndef
  | JNull
  | JBool bool
  | JNum int
  | JFloat string
  | JNaN
  | JStr string
  | JArr "jv list"
  | JObj "(string \<times> jv) list"
  | JNative string

text \<open>
  Every \<open>throw new Error(...)\<close> of the source is one constructor, named after its message.
  \<open>TypeError\<close> is the error the JavaScript runtime raises when a property of
  \<open>undefined\<close> or \<open>null\<close> is read or written, when a property is assigned on a primitive
  (module code is strict), when a non-function is called or when an object has no
  primitive value to convert to. \<open>Unmodelled\<close> marks the accesses the value model does
  not represent (named properties of arrays, strings and runtime objects, the text of a
  function, a number too large to print in digits); nothing is proved about them.
\<close>

datatype error =
    NegativeFieldIndex
  | NoFieldAtIndex
  | CouldNotDeleteNode
  | NoChildForPath
  | CouldNotFindChildWithSlug
  | CannotListItems
  | CannotDeleteKeyField
  | CannotDeleteValueField
  | UnknownType
  | CouldNotFindChildNamed
  | TypeError
  | Unmodelled

text \<open>Truthiness, as \<open>if (v)\<close>, \<open>v || d\<close> and \<open>!!v\<close> use it.\<close>

fun truthy :: "jv \<Rightarrow> bool" where
  "truthy JUndef = False"
| "truthy JNull = False"
| "truthy (JBool b) = b"
| "truthy (JNum n) = (n \<noteq> 0)"
| "truthy (JFloat s) = True"
| "truthy JNaN = False"
| "truthy (JStr s) = (s \<noteq> [])"
| "truthy (JArr xs) = True"
| "truthy (JObj kvs) = True"
| "truthy (JNative x) = True"

subsection \<open>Numbers and strings\<close>

definition digit_char :: "nat \<Rightarrow> char" where
  "digit_char d = ''0123456789'' ! d"

text \<open>The decimal digits of a number, as \<open>"" + idx\<close> renders it.\<close>

fun show_nat :: "nat \<Rightarrow> string" where
  "show_nat n = (if n < 10 then [digit_char n] else show_nat (n div 10) @ [digit_char (n mod 10)])"

declare show_nat.simps [simp del]

definition show_int :: "int \<Rightarrow> string" where
  "show_int i = (if i < 0 then CHR ''-'' # show_nat (nat (- i)) else show_nat (nat i))"

fun join_with :: "string \<Rightarrow> string list \<Rightarrow> string" where
  "join_with sep [] = []"
| "join_with sep [x] = x"
| "join_with sep (x # y # ys) = x @ sep @ join_with sep (y # ys)"

text \<open>
  The steps of \<open>forEach\<close>, \<open>join\<close> and the like that may throw: the first exception ends
  the sequence.
\<close>

fun sequence_sum :: "('e + 'a) list \<Rightarrow> 'e + 'a list" where
  "sequence_sum [] = Inr []"
| "sequence_sum (x # xs) =
     (case x of
        Inl e \<Rightarrow> Inl e
      | Inr y \<Rightarrow> (case sequence_sum xs of Inl e \<Rightarrow> Inl e | Inr ys \<Rightarrow> Inr (y # ys)))"

text \<open>
  \<open>"" + v\<close>: the string a value converts to, or the exception the conversion throws.

  \<^item> A number below \<open>10^21\<close> in magnitude prints its digits; from there on JavaScript
    prints an exponent, which is not modelled.
  \<^item> A plain object is asked for \<open>valueOf\<close> and then \<open>toString\<close>. The inherited
    \<open>valueOf\<close> returns the object itself, which is no primitive, and the inherited
    \<open>toString\<close> returns \<open>[object Object]\<close>. An own property \<open>toString\<close> that is a JSON
    value hides the inherited function and cannot be called, so that no primitive is
    found: a \<open>TypeError\<close>. An own property \<open>valueOf\<close> that is a JSON value is skipped.
  \<^item> An array joins the strings of its elements with commas, \<open>null\<close> and \<open>undefined\<close>
    elements giving the empty string.
\<close>

fun to_str :: "jv \<Rightarrow> error + string" where
  "to_str JUndef = Inr ''undefined''"
| "to_str JNull = Inr ''null''"
| "to_str (JBool b) = Inr (if b then ''true'' else ''false'')"
| "to_str (JNum n) = (if \<bar>n\<bar> < 10 ^ 21 then Inr (show_int n) else Inl Unmodelled)"
| "to_str (JFloat s) = Inr s"
| "to_str JNaN = Inr ''NaN''"
| "to_str (JStr s) = Inr s"
| "to_str (JArr xs) =
     (case sequence_sum (map (\<lambda>x. if x = JUndef \<or> x = JNull then Inr [] else to_str x) xs) of
        Inl e \<Rightarrow> Inl e
      | Inr strs \<Rightarrow> Inr (join_with '','' strs))"
| "to_str (JObj kvs) =
     (case map_of kvs ''valueOf'' of
        Some (JNative x) \<Rightarrow> Inl Unmodelled
      | _ \<Rightarrow>
          (case map_of kvs ''toString'' of
             None \<Rightarrow> Inr ''[object Object]''
           | Some (JNative x) \<Rightarrow> Inl Unmodelled
           | Some v \<Rightarrow> Inl TypeError))"
| "to_str (JNative x) = Inl Unmodelled"

text \<open>\<open>s.split('/')\<close>: the empty string splits into one empty segment.\<close>

fun split_on :: "char \<Rightarrow> string \<Rightarrow> string list" where
  "split_on c [] = [[]]"
| "split_on c (x # xs) =
     (if x = c then [] # split_on c xs
      else (case split_on c xs of [] \<Rightarrow> [[x]] | p # ps \<Rightarrow> (x # p) # ps))"

text \<open>
  The characters below 256 that are white space to the regular expression class \<open>\s\<close>
  and to \<open>parseInt\<close>: tab, line feed, vertical tab, form feed, carriage return, space
  and the no-break space.
\<close>

definition is_space :: "char \<Rightarrow> bool" where
  "is_space c = (c \<in> set [CHR '' '', CHR 0x09, CHR 0x0A, CHR 0x0B, CHR 0x0C, CHR 0x0D, CHR 0xA0])"

definition digit_val :: "char \<Rightarrow> nat option" where
  "digit_val c = map_of
     (zip ''0123456789abcdefABCDEF'' [0, 1, 2, 3, 4, 5, 6, 7, 8, 9, 10, 11, 12, 13, 14, 15, 10, 11, 12, 13, 14, 15]) c"

definition is_digit :: "nat \<Rightarrow> char \<Rightarrow> bool" where
  "is_digit radix c = (case digit_val c of None \<Rightarrow> False | Some d \<Rightarrow> d < radix)"

definition digits_val :: "nat \<Rightarrow> string \<Rightarrow> nat" where
  "digits_val radix ds = foldl (\<lambda>acc c. acc * radix + (case digit_val c of None \<Rightarrow> 0 | Some d \<Rightarrow> d)) 0 ds"

text \<open>
  \<open>parseInt(s)\<close> with no radix: leading white space is skipped, a sign is read, a
  \<open>0x\<close> prefix selects base 16, and the longest run of digits is the value. The result
  is \<open>NaN\<close> when there is no digit, the integer read when it is at most \<open>2^53\<close> in
  magnitude, where every integer is a double, and beyond that a double near the integer
  read, which \<open>PInexact\<close> stands for.
\<close>

datatype parsed = PNaN | PInt int | PInexact

definition parseInt :: "string \<Rightarrow> parsed" where
  "parseInt s =
     (let s1 = dropWhile is_space s;
          neg = (case s1 of [] \<Rightarrow> False | c # r \<Rightarrow> c = CHR ''-'');
          s2 = (case s1 of [] \<Rightarrow> [] | c # r \<Rightarrow> if c = CHR ''-'' \<or> c = CHR ''+'' then r else s1);
          hex = (case s2 of a # b # r \<Rightarrow> a = CHR ''0'' \<and> (b = CHR ''x'' \<or> b = CHR ''X'') | _ \<Rightarrow> False);
          radix = (if hex then 16 else 10);
          s3 = (if hex then drop 2 s2 else s2);
          ds = takeWhile (is_digit radix) s3
      in if ds = [] then PNaN
         else if digits_val radix ds \<le> 2 ^ 53
           then PInt ((if neg then - 1 else 1) * int (digits_val radix ds))
         else PInexact)"

subsection \<open>Property access\<close>

text \<open>
  The members a value inherits, each with the runtime object it is: those of
  \<open>Object.prototype\<close>, and before them those of \<open>Number.prototype\<close> and
  \<open>Boolean.prototype\<close> for a number and a boolean.
\<close>

definition object_members :: "(string \<times> string) list" where
  "object_members =
     [(''constructor'', ''Object''),
      (''__proto__'', ''Object.prototype''),
      (''toString'', ''Object.prototype.toString''),
      (''toLocaleString'', ''Object.prototype.toLocaleString''),
      (''valueOf'', ''Object.prototype.valueOf''),
      (''hasOwnProperty'', ''Object.prototype.hasOwnProperty''),
      (''isPrototypeOf'', ''Object.prototype.isPrototypeOf''),
      (''propertyIsEnumerable'', ''Object.prototype.propertyIsEnumerable''),
      (''__defineGetter__'', ''Object.prototype.__defineGetter__''),
      (''__defineSetter__'', ''Object.prototype.__defineSetter__''),
      (''__lookupGetter__'', ''Object.prototype.__lookupGetter__''),
      (''__lookupSetter__'', ''Object.prototype.__lookupSetter__'')]"

definition number_members :: "(string \<times> string) list" where
  "number_members =
     [(''constructor'', ''Number''),
      (''__proto__'', ''Number.prototype''),
      (''toString'', ''Number.prototype.toString''),
      (''toLocaleString'', ''Number.prototype.toLocaleString''),
      (''valueOf'', ''Number.prototype.valueOf''),
      (''toExponential'', ''Number.prototype.toExponential''),
      (''toFixed'', ''Number.prototype.toFixed''),
      (''toPrecision'', ''Number.prototype.toPrecision'')] @ object_members"

definition boolean_members :: "(string \<times> string) list" where
  "boolean_members =
     [(''constructor'', ''Boolean''),
      (''__proto__'', ''Boolean.prototype''),
      (''toString'', ''Boolean.prototype.toString''),
      (''valueOf'', ''Boolean.prototype.valueOf'')] @ object_members"

definition inherited :: "(string \<times> string) list \<Rightarrow> string \<Rightarrow> jv" where
  "inherited members k = (case map_of members k of None \<Rightarrow> JUndef | Some x \<Rightarrow> JNative x)"

text \<open>The names that a plain object inherits a member under.\<close>

definition inherited_name :: "string \<Rightarrow> bool" where
  "inherited_name k = (map_of object_members k \<noteq> None)"

text \<open>
  What \<open>o[k]\<close> reads on a plain object: the own property, else the inherited member,
  else \<open>undefined\<close>.
\<close>

definition lookup_prop :: "(string \<times> jv) list \<Rightarrow> string \<Rightarrow> jv" where
  "lookup_prop kvs k = (case map_of kvs k of None \<Rightarrow> inherited object_members k | Some v \<Rightarrow> v)"

text \<open>\<open>o[k]\<close> with a string key.\<close>

fun get_prop :: "jv \<Rightarrow> string \<Rightarrow> error + jv" where
  "get_prop JUndef k = Inl TypeError"
| "get_prop JNull k = Inl TypeError"
| "get_prop (JObj kvs) k = Inr (lookup_prop kvs k)"
| "get_prop (JBool b) k = Inr (inherited boolean_members k)"
| "get_prop (JNum n) k = Inr (inherited number_members k)"
| "get_prop (JFloat s) k = Inr (inherited number_members k)"
| "get_prop JNaN k = Inr (inherited number_members k)"
| "get_prop (JStr s) k = Inl Unmodelled"
| "get_prop (JArr xs) k = Inl Unmodelled"
| "get_prop (JNative x) k = Inl Unmodelled"

text \<open>
  The property key a number converts to; the digits of a number beyond \<open>2^53\<close> are not
  modelled.
\<close>

definition number_key :: "parsed \<Rightarrow> string option" where
  "number_key i = (case i of PNaN \<Rightarrow> Some ''NaN'' | PInt n \<Rightarrow> Some (show_int n) | PInexact \<Rightarrow> None)"

text \<open>
  \<open>o[i]\<close> with a number (or \<open>NaN\<close>) as the key. An array has fewer than \<open>2^32\<close>
  elements, so a number beyond \<open>2^53\<close> is the index of none.
\<close>

fun get_index :: "jv \<Rightarrow> parsed \<Rightarrow> error + jv" where
  "get_index JUndef i = Inl TypeError"
| "get_index JNull i = Inl TypeError"
| "get_index (JArr xs) i =
     Inr (case i of
            PInt n \<Rightarrow> if 0 \<le> n \<and> n < int (length xs) then xs ! nat n else JUndef
          | _ \<Rightarrow> JUndef)"
| "get_index (JObj kvs) i =
     (case number_key i of None \<Rightarrow> Inl Unmodelled | Some k \<Rightarrow> get_prop (JObj kvs) k)"
| "get_index (JBool b) i = Inr JUndef"
| "get_index (JNum n) i = Inr JUndef"
| "get_index (JFloat s) i = Inr JUndef"
| "get_index JNaN i = Inr JUndef"
| "get_index (JStr s) i = Inl Unmodelled"
| "get_index (JNative x) i = Inl Unmodelled"

text \<open>
  The own properties after \<open>o[k] = v\<close> on a plain object: an existing property keeps
  its place, a new one is added last. The key \<open>__proto__\<close> is the exception: unless the
  object has an own property of that name, the assignment goes to the inherited setter,
  which adds no own property; it replaces the prototype when \<open>v\<close> is an object or
  \<open>null\<close> and does nothing otherwise. The prototype is not recorded in the value.
\<close>

definition own_store :: "string \<Rightarrow> jv \<Rightarrow> (string \<times> jv) list \<Rightarrow> (string \<times> jv) list" where
  "own_store k v kvs =
     (if k = ''__proto__'' \<and> map_of kvs k = None then kvs else AList.update k v kvs)"

text \<open>\<open>o[k] = v\<close>.\<close>

fun set_prop :: "jv \<Rightarrow> string \<Rightarrow> jv \<Rightarrow> error + jv" where
  "set_prop JUndef k v = Inl TypeError"
| "set_prop JNull k v = Inl TypeError"
| "set_prop (JObj kvs) k v = Inr (JObj (own_store k v kvs))"
| "set_prop (JBool b) k v = Inl TypeError"
| "set_prop (JNum n) k v = Inl TypeError"
| "set_prop (JFloat s) k v = Inl TypeError"
| "set_prop JNaN k v = Inl TypeError"
| "set_prop (JStr s) k v = Inl TypeError"
| "set_prop (JArr xs) k v = Inl Unmodelled"
| "set_prop (JNative x) k v = Inl Unmodelled"

text \<open>\<open>delete o[k]\<close>: an own property is removed, an inherited member stays.\<close>

fun delete_prop :: "jv \<Rightarrow> string \<Rightarrow> error + jv" where
  "delete_prop JUndef k = Inl TypeError"
| "delete_prop JNull k = Inl TypeError"
| "delete_prop (JObj kvs) k = Inr (JObj (AList.delete k kvs))"
| "delete_prop (JBool b) k = Inr (JBool b)"
| "delete_prop (JNum n) k = Inr (JNum n)"
| "delete_prop (JFloat s) k = Inr (JFloat s)"
| "delete_prop JNaN k = Inr JNaN"
| "delete_prop (JStr s) k = Inl Unmodelled"
| "delete_prop (JArr xs) k = Inl Unmodelled"
| "delete_prop (JNative x) k = Inl Unmodelled"

text \<open>
  \<open>arr.forEach(f)\<close> where \<open>f\<close> updates the element it is given in place: the elements
  are visited in order, and an exception leaves the elements not yet visited as they
  were.
\<close>

fun forEach :: "(jv \<Rightarrow> error + jv) \<Rightarrow> jv list \<Rightarrow> (error \<times> jv list) + jv list" where
  "forEach f [] = Inr []"
| "forEach f (x # xs) =
     (case f x of
        Inl e \<Rightarrow> Inl (e, x # xs)
      | Inr y \<Rightarrow>
          (case forEach f xs of
             Inl (e, ys) \<Rightarrow> Inl (e, y # ys)
           | Inr ys \<Rightarrow> Inr (y # ys)))"

text \<open>
  The order in which JavaScript lists the own keys of an object: the keys that are
  array indices (the decimal digits, with no leading zero, of a number up to
  \<open>2^32 - 2\<close>) in ascending order, then the other keys in the order they were created.
\<close>

definition array_index :: "string \<Rightarrow> nat option" where
  "array_index k =
     (if k \<noteq> [] \<and> list_all (is_digit 10) k \<and> (k = ''0'' \<or> hd k \<noteq> CHR ''0'')
          \<and> digits_val 10 k \<le> 4294967294
      then Some (digits_val 10 k) else None)"

definition own_property_order :: "string list \<Rightarrow> string list" where
  "own_property_order ks =
     sort_key (\<lambda>k. case array_index k of None \<Rightarrow> 0 | Some i \<Rightarrow> i) (filter (\<lambda>k. array_index k \<noteq> None) ks)
     @ filter (\<lambda>k. array_index k = None) ks"

text \<open>The values of an object in that order.\<close>

definition own_values :: "(string \<times> jv) list \<Rightarrow> jv list" where
  "own_values kvs =
     map (\<lambda>k. case map_of kvs k of None \<Rightarrow> JUndef | Some v \<Rightarrow> v) (own_property_order (map fst kvs))"

text \<open>
  The object whose values, listed by \<open>own_values\<close>, have been updated in place to
  \<open>vs\<close>.
\<close>

definition with_values :: "(string \<times> jv) list \<Rightarrow> jv list \<Rightarrow> (string \<times> jv) list" where
  "with_values kvs vs =
     map (\<lambda>(k, v). (k, case map_of (zip (own_property_order (map fst kvs)) vs) k of
                          None \<Rightarrow> v | Some y \<Rightarrow> y)) kvs"
section \<open>Schema, fields and node projections\<close>

text \<open>
  A field declaration is a bare display name or a structured record; \<open>type\<close> and
  \<open>key\<close> of a structured field may be missing (\<open>None\<close> is \<open>undefined\<close>).
\<close>

record field =
  fname :: string
  ftype :: "string option"
  key :: "bool option"

datatype fdecl = Bare string | Structured field

text \<open>
  \<open>dataIndex\<close> of a projection or of a \<open>Path\<close>: a number, \<open>NaN\<close> (what \<open>parseInt\<close>
  gives for a segment with no digit), the number \<open>parseInt\<close> reads from a segment
  whose digits go beyond \<open>2^53\<close> (named by the segment), a map key, or no such property
  at all.
\<close>

datatype dataidx = IdxNum int | IdxNaN | IdxInexact string | IdxKey string | IdxMissing

text \<open>The interface \<open>Path\<close>; \<open>treePath\<close> is an array while the path is walked and a string in the result.\<close>

datatype path_arg = PStr string | PArr "string list"

record 'a Path =
  fullPath :: path_arg
  tree_path :: 'a
  data_index :: dataidx

text \<open>The interface \<open>Model\<close>: \<open>children\<close>, \<open>type\<close>, \<open>list\<close> and \<open>fields\<close> may be missing.\<close>

datatype model = Model
  (name: string)
  (children: "model list option")
  (mtype: "string option")
  (list_flag: "bool option")
  (fields: "fdecl list option")

text \<open>
  The interface \<open>Node\<close>. A node value is a snapshot of the objects reachable from a
  projection: its schema node, its data, and its parent projection (\<open>None\<close> is
  \<open>undefined\<close>). The data is a tree, as the JSON documents the engine edits are, so
  that no two items of a container are one object.

  A projection that the engine builds shares objects with its parent: the schema node of
  a child is an element of the parent's \<open>children\<close>, the schema node of an item is the
  parent's, and the data of either is held in the parent's data. \<open>addNode\<close>,
  \<open>deleteNode\<close> and \<open>deleteFieldAt\<close> return the snapshot after the call along the access
  path the code writes through. \<open>renameNode\<close> and \<open>updateFieldAt\<close> write to an object
  that the snapshot holds a second time, under the parent; their result is therefore
  not a snapshot but the objects written, each once, as the call leaves them. Whoever
  holds one of these objects sees it so.
\<close>

datatype node = Node
  (model: model)
  (data: jv)
  (parent: "node option")
  (path: "string option")
  (treePath: "string option")
  (dataIndex: dataidx)
  (fieldIndex: "int option")

definition set_name :: "string \<Rightarrow> model \<Rightarrow> model" where
  "set_name x m = Model x (children m) (mtype m) (list_flag m) (fields m)"

definition set_children :: "model list option \<Rightarrow> model \<Rightarrow> model" where
  "set_children x m = Model (name m) x (mtype m) (list_flag m) (fields m)"

definition set_fields :: "fdecl list option \<Rightarrow> model \<Rightarrow> model" where
  "set_fields x m = Model (name m) (children m) (mtype m) (list_flag m) x"

definition set_model :: "model \<Rightarrow> node \<Rightarrow> node" where
  "set_model x n = Node x (data n) (parent n) (path n) (treePath n) (dataIndex n) (fieldIndex n)"

definition set_data :: "jv \<Rightarrow> node \<Rightarrow> node" where
  "set_data x n = Node (model n) x (parent n) (path n) (treePath n) (dataIndex n) (fieldIndex n)"

definition set_parent :: "node option \<Rightarrow> node \<Rightarrow> node" where
  "set_parent x n = Node (model n) (data n) x (path n) (treePath n) (dataIndex n) (fieldIndex n)"

definition set_paths :: "string option \<Rightarrow> node \<Rightarrow> node" where
  "set_paths x n = Node (model n) (data n) (parent n) x x (dataIndex n) (fieldIndex n)"

text \<open>
  The objects \<open>renameNode\<close> writes to: the schema node \<open>node.model\<close>, the projection
  itself (its \<open>path\<close> and \<open>treePath\<close>), and the data object of the parent
  (\<open>None\<close> when the projection has no parent).
\<close>

datatype renamed_objects = Renamed
  (schema_node: model)
  (node_path: "string option")
  (node_treePath: "string option")
  (parent_data: "jv option")

text \<open>
  The objects \<open>updateFieldAt\<close> writes to: the items, shown as the data of the struct
  node that holds them (\<open>None\<close> when the projection has no struct node), and the
  sequence \<open>node.model.fields\<close> (\<open>None\<close> when the schema node has none).
\<close>

datatype updated_objects = Updated
  (struct_data: "jv option")
  (model_fields: "fdecl list option")

abbreviation TYPE_TREE :: string where "TYPE_TREE \<equiv> ''tree''"
abbreviation TYPE_MAP_OBJECT :: string where "TYPE_MAP_OBJECT \<equiv> ''map<object>''"
abbreviation TYPE_MAP_STRING :: string where "TYPE_MAP_STRING \<equiv> ''map<string>''"
abbreviation TYPE_LIST_OBJECT :: string where "TYPE_LIST_OBJECT \<equiv> ''list<object>''"
abbreviation FIELD_TYPE_STRING :: string where "FIELD_TYPE_STRING \<equiv> ''string''"
abbreviation FIELD_TYPE_BOOLEAN :: string where "FIELD_TYPE_BOOLEAN \<equiv> ''boolean''"
abbreviation FIELD_TYPE_ARRAY :: string where "FIELD_TYPE_ARRAY \<equiv> ''array''"
abbreviation FIELD_TYPE_MARKDOWN :: string where "FIELD_TYPE_MARKDOWN \<equiv> ''markdown''"

section \<open>The engine\<close>

text \<open>
  \<open>toLowerCase\<close> on a character below 256: the letters \<open>A\<close> to \<open>Z\<close>, and the Latin-1
  capitals from \<open>0xC0\<close> to \<open>0xDE\<close> except the multiplication sign \<open>0xD7\<close>, move up
  by \<open>0x20\<close>.
\<close>

definition lower_char :: "char \<Rightarrow> char" where
  "lower_char c =
     (case map_of
             (zip ''ABCDEFGHIJKLMNOPQRSTUVWXYZ'' ''abcdefghijklmnopqrstuvwxyz''
              @ zip [CHR 0xC0, CHR 0xC1, CHR 0xC2, CHR 0xC3, CHR 0xC4, CHR 0xC5, CHR 0xC6, CHR 0xC7,
                     CHR 0xC8, CHR 0xC9, CHR 0xCA, CHR 0xCB, CHR 0xCC, CHR 0xCD, CHR 0xCE, CHR 0xCF,
                     CHR 0xD0, CHR 0xD1, CHR 0xD2, CHR 0xD3, CHR 0xD4, CHR 0xD5, CHR 0xD6,
                     CHR 0xD8, CHR 0xD9, CHR 0xDA, CHR 0xDB, CHR 0xDC, CHR 0xDD, CHR 0xDE]
                    [CHR 0xE0, CHR 0xE1, CHR 0xE2, CHR 0xE3, CHR 0xE4, CHR 0xE5, CHR 0xE6, CHR 0xE7,
                     CHR 0xE8, CHR 0xE9, CHR 0xEA, CHR 0xEB, CHR 0xEC, CHR 0xED, CHR 0xEE, CHR 0xEF,
                     CHR 0xF0, CHR 0xF1, CHR 0xF2, CHR 0xF3, CHR 0xF4, CHR 0xF5, CHR 0xF6,
                     CHR 0xF8, CHR 0xF9, CHR 0xFA, CHR 0xFB, CHR 0xFC, CHR 0xFD, CHR 0xFE]) c of
        None \<Rightarrow> c | Some d \<Rightarrow> d)"

text \<open>
  \<open>str.replace(/\s/g, '_').replace(/\//g, '-').toLowerCase()\<close>.
\<close>

definition slugify :: "string \<Rightarrow> string" where
  "slugify str =
     map lower_char
       (map (\<lambda>c. if c = CHR ''/'' then CHR ''-'' else c)
         (map (\<lambda>c. if is_space c then CHR ''_'' else c) str))"

definition getNodeType :: "node \<Rightarrow> string" where
  "getNodeType node =
     (case mtype (model node) of
        Some t \<Rightarrow> if t \<noteq> [] then t
                  else if list_flag (model node) = Some True then TYPE_LIST_OBJECT else TYPE_TREE
      | None \<Rightarrow> if list_flag (model node) = Some True then TYPE_LIST_OBJECT else TYPE_TREE)"

definition getField :: "fdecl \<Rightarrow> field" where
  "getField f = (case f of Bare s \<Rightarrow> \<lparr>fname = s, ftype = None, key = None\<rparr> | Structured r \<Rightarrow> r)"

definition getFieldAt :: "node \<Rightarrow> int \<Rightarrow> error + field" where
  "getFieldAt node fieldIdx =
     (if fieldIdx < 0 then Inl NegativeFieldIndex
      else (case fields (model node) of
              None \<Rightarrow> Inl NoFieldAtIndex
            | Some fs \<Rightarrow>
                if fieldIdx < int (length fs) then Inr (getField (fs ! nat fieldIdx))
                else Inl NoFieldAtIndex))"

text \<open>\<open>node.path + '/'\<close> and the like: a missing path prints as \<open>undefined\<close>.\<close>

definition path_str :: "string option \<Rightarrow> string" where
  "path_str p = (case p of None \<Rightarrow> ''undefined'' | Some s \<Rightarrow> s)"

text \<open>\<open>(node.path ? (node.path + '/') : '') + next\<close>.\<close>

definition path_under :: "string option \<Rightarrow> string \<Rightarrow> string" where
  "path_under p next = (case p of None \<Rightarrow> next | Some s \<Rightarrow> if s \<noteq> [] then s @ ''/'' @ next else next)"

text \<open>
  The loop of \<open>deleteNode\<close> over \<open>modelChildren\<close>: the first child of that name is
  spliced out; \<open>None\<close> when the loop ends without a match.
\<close>

fun splice_named :: "string \<Rightarrow> model list \<Rightarrow> model list option" where
  "splice_named nm [] = None"
| "splice_named nm (c # cs) =
     (if name c = nm then Some cs else map_option ((#) c) (splice_named nm cs))"

text \<open>
  \<open>deleteNode\<close> writes to the parent of the projection: the result is the projection
  with its parent as the call leaves it, also when the call throws.
\<close>

definition deleteNode :: "node \<Rightarrow> (error \<times> node) + node" where
  "deleteNode node =
     (case parent node of
        None \<Rightarrow> Inl (TypeError, node)
      | Some parentNode \<Rightarrow>
          (case children (model parentNode) of
             None \<Rightarrow> Inl (TypeError, node)
           | Some modelChildren \<Rightarrow>
               (case splice_named (name (model node)) modelChildren of
                  None \<Rightarrow> Inl (CouldNotDeleteNode, node)
                | Some spliced \<Rightarrow>
                    (let p1 = set_model (set_children (Some spliced) (model parentNode)) parentNode
                     in case delete_prop (data p1) (slugify (name (model node))) of
                          Inl e \<Rightarrow> Inl (e, set_parent (Some p1) node)
                        | Inr d \<Rightarrow> Inr (set_parent (Some (set_data d p1)) node)))))"

text \<open>\<open>node.model.children && node.model.children.length > 0\<close>.\<close>

definition has_children :: "node \<Rightarrow> bool" where
  "has_children node = (case children (model node) of None \<Rightarrow> False | Some cs \<Rightarrow> length cs > 0)"

text \<open>
  \<open>_findChild\<close>: the loop returns at the first child whose slug is the one asked for.
  The projection it builds has a \<open>fieldIndex\<close> and no \<open>dataIndex\<close>.
\<close>

definition findChild' :: "node \<Rightarrow> string \<Rightarrow> error + node" where
  "findChild' node slug =
     (case children (model node) of
        None \<Rightarrow> Inl CouldNotFindChildWithSlug
      | Some cs \<Rightarrow>
          (case find (\<lambda>c. slugify (name c) = slug) cs of
             None \<Rightarrow> Inl CouldNotFindChildWithSlug
           | Some c \<Rightarrow>
               (let childPath = path_str (path node) @ ''/'' @ slug
                in case get_prop (data node) slug of
                     Inl e \<Rightarrow> Inl e
                   | Inr d \<Rightarrow> Inr (Node c d (Some node) (Some childPath) (Some childPath) IdxMissing (Some (- 1))))))"

text \<open>\<open>parseInt(p)\<close> as a \<open>dataIndex\<close>.\<close>

definition parsed_index :: "string \<Rightarrow> dataidx" where
  "parsed_index p = (case parseInt p of PNaN \<Rightarrow> IdxNaN | PInt i \<Rightarrow> IdxNum i | PInexact \<Rightarrow> IdxInexact p)"

fun treePathAndIndex' :: "node \<Rightarrow> string list \<Rightarrow> string list Path \<Rightarrow> error + string list Path" where
  "treePathAndIndex' node [] result = Inr result"
| "treePathAndIndex' node (p # rest) result =
     (if has_children node then
        (case findChild' node p of
           Inl e \<Rightarrow> Inl e
         | Inr child \<Rightarrow> treePathAndIndex' child rest (result\<lparr>tree_path := tree_path result @ [p]\<rparr>))
      else if getNodeType node = TYPE_LIST_OBJECT then Inr (result\<lparr>data_index := parsed_index p\<rparr>)
      else if getNodeType node = TYPE_MAP_OBJECT \<or> getNodeType node = TYPE_MAP_STRING
        then Inr (result\<lparr>data_index := IdxKey p\<rparr>)
      else Inl NoChildForPath)"

text \<open>
  The segments \<open>treePathAndIndex\<close> walks:
  \<open>Array.isArray(path) ? path : (path.length > 0 ? path.split('/') : '')\<close>.
\<close>

definition path_segments :: "path_arg \<Rightarrow> string list" where
  "path_segments pathArg =
     (case pathArg of
        PArr segs \<Rightarrow> segs
      | PStr s \<Rightarrow> if length s > 0 then split_on CHR ''/'' s else [])"

definition treePathAndIndex :: "node \<Rightarrow> path_arg \<Rightarrow> error + string Path" where
  "treePathAndIndex tree pathArg =
     (case treePathAndIndex' tree (path_segments pathArg)
             \<lparr>fullPath = pathArg, tree_path = [], data_index = IdxNum (- 1)\<rparr> of
        Inl e \<Rightarrow> Inl e
      | Inr res \<Rightarrow>
          Inr \<lparr>fullPath = fullPath res, tree_path = join_with ''/'' (tree_path res),
               data_index = data_index res\<rparr>)"

text \<open>
  The name probed at \<open>idx\<close>:
  \<open>(idx === 1) ? newName : (newName + " (" + idx + ")")\<close>.
\<close>

definition fullName :: "string \<Rightarrow> nat \<Rightarrow> string" where
  "fullName newName idx = (if idx = 1 then newName else newName @ '' ('' @ show_nat idx @ '')'')"

lemma digit_char_inj: "a < 10 \<Longrightarrow> b < 10 \<Longrightarrow> digit_char a = digit_char b \<Longrightarrow> a = b"
proof -
  assume a: "a < 10" and b: "b < 10" and e: "digit_char a = digit_char b"
  have d: "distinct ''0123456789''" by simp
  have "length ''0123456789'' = 10" by simp
  with a b e d show ?thesis
    unfolding digit_char_def by (metis nth_eq_iff_index_eq)
qed

lemma show_nat_nonempty: "show_nat n \<noteq> []"
  by (subst show_nat.simps) simp

lemma show_nat_inj: "show_nat m = show_nat n \<Longrightarrow> m = n"
proof (induction m arbitrary: n rule: show_nat.induct)
  case (1 m)
  show ?case
  proof (cases "m < 10")
    case True
    then have sm: "show_nat m = [digit_char m]" by (subst show_nat.simps) simp
    show ?thesis
    proof (cases "n < 10")
      case True
      then have "show_nat n = [digit_char n]" by (subst show_nat.simps) simp
      with sm "1.prems" have "digit_char m = digit_char n" by simp
      with \<open>m < 10\<close> True show ?thesis by (simp add: digit_char_inj)
    next
      case False
      then have "show_nat n = show_nat (n div 10) @ [digit_char (n mod 10)]"
        by (subst show_nat.simps) simp
      with sm "1.prems" show_nat_nonempty[of "n div 10"] show ?thesis by (cases "show_nat (n div 10)") auto
    qed
  next
    case False
    then have sm: "show_nat m = show_nat (m div 10) @ [digit_char (m mod 10)]"
      by (subst show_nat.simps) simp
    show ?thesis
    proof (cases "n < 10")
      case True
      then have "show_nat n = [digit_char n]" by (subst show_nat.simps) simp
      with sm "1.prems" show_nat_nonempty[of "m div 10"] show ?thesis by (cases "show_nat (m div 10)") auto
    next
      case nb: False
      then have sn: "show_nat n = show_nat (n div 10) @ [digit_char (n mod 10)]"
        by (subst show_nat.simps) simp
      from sm sn "1.prems" have e1: "show_nat (m div 10) = show_nat (n div 10)"
        and e2: "digit_char (m mod 10) = digit_char (n mod 10)" by auto
      from "1.IH"[OF False e1] have d: "m div 10 = n div 10" .
      have "m mod 10 = n mod 10" by (rule digit_char_inj[OF _ _ e2]) auto
      with d show ?thesis by (metis div_mult_mod_eq)
    qed
  qed
qed

lemma fullName_inj: "fullName s i = fullName s j \<Longrightarrow> i = j"
  by (auto simp: fullName_def dest: show_nat_inj split: if_splits)

text \<open>The display names of the schema children of a node.\<close>

definition sibling_names :: "node \<Rightarrow> string set" where
  "sibling_names node = (case children (model node) of None \<Rightarrow> {} | Some cs \<Rightarrow> name ` set cs)"

lemma finite_probes: "finite {j. fullName s j \<in> sibling_names node}"
proof -
  have "finite (sibling_names node)" by (simp add: sibling_names_def split: option.splits)
  moreover have "inj (fullName s)" by (rule injI) (rule fullName_inj)
  ultimately have "finite (fullName s -` sibling_names node)" by (rule finite_vimageI)
  then show ?thesis by (simp add: vimage_def)
qed

text \<open>
  \<open>_findNewNodeName\<close>: the loop over the children returns the recursive call at the
  first child whose name is the probed one, so the recursion is taken exactly when some
  child has that name.
\<close>

function findNewNodeName' :: "node \<Rightarrow> string \<Rightarrow> nat \<Rightarrow> string" where
  "findNewNodeName' node newName idx =
     (case children (model node) of
        None \<Rightarrow> fullName newName idx
      | Some cs \<Rightarrow>
          if list_ex (\<lambda>child. name child = fullName newName idx) cs
          then findNewNodeName' node newName (idx + 1)
          else fullName newName idx)"
  by pat_completeness auto
termination
proof (relation "measure (\<lambda>(node, newName, idx). card {j. idx \<le> j \<and> fullName newName j \<in> sibling_names node})")
  show "wf (measure (\<lambda>(node, newName, idx). card {j. idx \<le> j \<and> fullName newName j \<in> sibling_names node}))"
    by simp
next
  fix node :: node and newName :: string and idx :: nat and cs
  assume c: "children (model node) = Some cs"
    and m: "list_ex (\<lambda>child. name child = fullName newName idx) cs"
  let ?A = "{j. idx \<le> j \<and> fullName newName j \<in> sibling_names node}"
  let ?B = "{j. idx + 1 \<le> j \<and> fullName newName j \<in> sibling_names node}"
  from c m have "fullName newName idx \<in> sibling_names node"
    by (force simp: sibling_names_def list_ex_iff image_iff)
  then have "idx \<in> ?A" "idx \<notin> ?B" by auto
  moreover have "?B \<subseteq> ?A" by auto
  ultimately have "?B \<subset> ?A" by blast
  moreover have "finite ?A" using finite_probes[of newName node] by (rule rev_finite_subset) auto
  ultimately have "card ?B < card ?A" by (rule psubset_card_mono[rotated])
  then show "((node, newName, idx + 1), (node, newName, idx))
      \<in> measure (\<lambda>(node, newName, idx). card {j. idx \<le> j \<and> fullName newName j \<in> sibling_names node})"
    by simp
qed

declare findNewNodeName'.simps [simp del]

text \<open>
  \<open>Object.values(v)\<close>: the values of the own enumerable properties, in the order of
  the keys. A number, a boolean and an object of the runtime have none.
\<close>

fun object_values :: "jv \<Rightarrow> error + jv" where
  "object_values JUndef = Inl TypeError"
| "object_values JNull = Inl TypeError"
| "object_values (JObj kvs) = Inr (JArr (own_values kvs))"
| "object_values (JArr xs) = Inr (JArr xs)"
| "object_values (JStr s) = Inr (JArr (map (\<lambda>c. JStr [c]) s))"
| "object_values (JBool b) = Inr (JArr [])"
| "object_values (JNum n) = Inr (JArr [])"
| "object_values (JFloat s) = Inr (JArr [])"
| "object_values JNaN = Inr (JArr [])"
| "object_values (JNative x) = Inr (JArr [])"

definition getDataItems :: "node \<Rightarrow> error + jv" where
  "getDataItems node =
     (if getNodeType node = TYPE_LIST_OBJECT then Inr (data node)
      else if getNodeType node = TYPE_MAP_OBJECT \<or> getNodeType node = TYPE_MAP_STRING
        then object_values (data node)
      else Inl CannotListItems)"

text \<open>
  \<open>getDataItems(node).forEach(f)\<close> where \<open>f\<close> updates the item it is given: the items
  are the elements of the list, or the values of the map, themselves, so the update
  shows in the data of the node. Calling \<open>forEach\<close> on what is not an array is a
  \<open>TypeError\<close>; the characters of a string are primitives, which \<open>f\<close> cannot change.
  The values of a map are visited in the order \<open>Object.values\<close> lists them.
\<close>

definition forEachDataItem :: "(jv \<Rightarrow> error + jv) \<Rightarrow> node \<Rightarrow> (error \<times> node) + node" where
  "forEachDataItem f node =
     (if getNodeType node = TYPE_LIST_OBJECT then
        (case data node of
           JArr xs \<Rightarrow>
             (case forEach f xs of
                Inl (e, ys) \<Rightarrow> Inl (e, set_data (JArr ys) node)
              | Inr ys \<Rightarrow> Inr (set_data (JArr ys) node))
         | _ \<Rightarrow> Inl (TypeError, node))
      else if getNodeType node = TYPE_MAP_OBJECT \<or> getNodeType node = TYPE_MAP_STRING then
        (case data node of
           JUndef \<Rightarrow> Inl (TypeError, node)
         | JNull \<Rightarrow> Inl (TypeError, node)
         | JObj kvs \<Rightarrow>
             (case forEach f (own_values kvs) of
                Inl (e, vs) \<Rightarrow> Inl (e, set_data (JObj (with_values kvs vs)) node)
              | Inr vs \<Rightarrow> Inr (set_data (JObj (with_values kvs vs)) node))
         | JArr xs \<Rightarrow>
             (case forEach f xs of
                Inl (e, ys) \<Rightarrow> Inl (e, set_data (JArr ys) node)
              | Inr ys \<Rightarrow> Inr (set_data (JArr ys) node))
         | JStr s \<Rightarrow>
             (case forEach f (map (\<lambda>c. JStr [c]) s) of
                Inl (e, ys) \<Rightarrow> Inl (e, node)
              | Inr ys \<Rightarrow> Inr node)
         | _ \<Rightarrow> Inr node)
      else Inl (CannotListItems, node))"

text \<open>
  \<open>addNode\<close> writes to its argument. \<open>Inr\<close> carries the projection returned, whose
  \<open>parent\<close> is the argument as the call leaves it; \<open>Inl\<close> carries the exception and
  the argument at the throw.
\<close>

definition addNode :: "node \<Rightarrow> string \<Rightarrow> string \<Rightarrow> (error \<times> node) + node" where
  "addNode node requestedName nodeType =
     (let newName = findNewNodeName' node requestedName 1;
          newModel0 = Model newName None (Some nodeType) None None;
          keyField = Structured \<lparr>fname = ''Key'', ftype = None, key = Some True\<rparr>;
          newModel =
            (if nodeType = TYPE_TREE then set_children (Some []) newModel0
             else if nodeType = TYPE_MAP_OBJECT then set_fields (Some [keyField]) newModel0
             else if nodeType = TYPE_MAP_STRING then set_fields (Some [keyField, Bare ''Value'']) newModel0
             else if nodeType = TYPE_LIST_OBJECT then set_fields (Some [Bare ''Name'']) newModel0
             else newModel0);
          newData =
            (if nodeType = TYPE_TREE \<or> nodeType = TYPE_MAP_OBJECT \<or> nodeType = TYPE_MAP_STRING
               then JObj []
             else if nodeType = TYPE_LIST_OBJECT then JArr []
             else JUndef);
          cs = (case children (model node) of None \<Rightarrow> [] | Some cs \<Rightarrow> cs);
          node1 = set_model (set_children (Some (cs @ [newModel])) (model node)) node;
          slug = slugify (name newModel)
      in case set_prop (data node1) slug newData of
           Inl e \<Rightarrow> Inl (e, node1)
         | Inr d \<Rightarrow>
             (let node2 = set_data d node1;
                  p = path_str (path node) @ ''/'' @ slug
              in Inr (Node newModel newData (Some node2) (Some p) (Some p) (IdxNum (- 1))
                        (fieldIndex node))))"

definition getStructNode' :: "node \<Rightarrow> node option" where
  "getStructNode' node = (if dataIndex node \<noteq> IdxNum (- 1) then parent node else Some node)"

text \<open>The projection after a write to its struct node: the node itself, or its parent.\<close>

definition setStructNode :: "node \<Rightarrow> node \<Rightarrow> node" where
  "setStructNode node s = (if dataIndex node \<noteq> IdxNum (- 1) then set_parent (Some s) node else s)"

text \<open>
  \<open>renameNode\<close>; the parameter \<open>name\<close> of the source is \<open>newName\<close> here. The schema
  node is renamed first; the parent's data, when there is a parent, is read under the
  old slug, written under the new one, and the old key is deleted last. \<open>Inl\<close> carries
  the exception and the objects as they are at the throw.
\<close>

definition renameNode :: "node \<Rightarrow> string \<Rightarrow> (error \<times> renamed_objects) + renamed_objects" where
  "renameNode node newName =
     (let previousName = name (model node);
          model1 = set_name newName (model node)
      in case parent node of
           None \<Rightarrow> Inr (Renamed model1 (path node) (treePath node) None)
         | Some p \<Rightarrow>
             (case get_prop (data p) (slugify previousName) of
                Inl e \<Rightarrow> Inl (e, Renamed model1 (path node) (treePath node) (Some (data p)))
              | Inr v \<Rightarrow>
                  (case set_prop (data p) (slugify newName) v of
                     Inl e \<Rightarrow> Inl (e, Renamed model1 (path node) (treePath node) (Some (data p)))
                   | Inr d1 \<Rightarrow>
                       (let path1 = Some (path_under (path p) (slugify newName))
                        in case delete_prop d1 (slugify previousName) of
                             Inl e \<Rightarrow> Inl (e, Renamed model1 path1 path1 (Some d1))
                           | Inr d2 \<Rightarrow> Inr (Renamed model1 path1 path1 (Some d2))))))"

definition checkDeleteFieldAt' :: "node \<Rightarrow> int \<Rightarrow> error + field" where
  "checkDeleteFieldAt' node fieldIdx =
     (case getFieldAt node fieldIdx of
        Inl e \<Rightarrow> Inl e
      | Inr field \<Rightarrow>
          if key field = Some True then Inl CannotDeleteKeyField
          else if getNodeType node = TYPE_MAP_STRING then Inl CannotDeleteValueField
          else Inr field)"

definition canDeleteFieldAt :: "node \<Rightarrow> int \<Rightarrow> bool" where
  "canDeleteFieldAt node fieldIdx =
     (case checkDeleteFieldAt' node fieldIdx of Inl err \<Rightarrow> False | Inr field \<Rightarrow> True)"

definition deleteFieldAt :: "node \<Rightarrow> int \<Rightarrow> (error \<times> node) + node" where
  "deleteFieldAt node fieldIdx =
     (case checkDeleteFieldAt' node fieldIdx of
        Inl e \<Rightarrow> Inl (e, node)
      | Inr field \<Rightarrow>
          (case getStructNode' node of
             None \<Rightarrow> Inl (TypeError, node)
           | Some structNode \<Rightarrow>
               (case forEachDataItem (\<lambda>item. delete_prop item (slugify (fname field))) structNode of
                  Inl (e, s1) \<Rightarrow> Inl (e, setStructNode node s1)
                | Inr s1 \<Rightarrow>
                    (let node1 = setStructNode node s1
                     in case fields (model node1) of
                          None \<Rightarrow> Inl (TypeError, node1)
                        | Some fs \<Rightarrow>
                            Inr (set_model
                                   (set_fields (Some (take (nat fieldIdx) fs @ drop (Suc (nat fieldIdx)) fs))
                                      (model node1))
                                   node1)))))"

text \<open>
  \<open>_convert\<close>; a missing type is \<open>None\<close>. \<open>value ? "" + value : ""\<close> converts a truthy
  value only, and throws what the conversion throws.
\<close>

definition convert' :: "jv \<Rightarrow> string option \<Rightarrow> string option \<Rightarrow> error + jv" where
  "convert' v prevFieldType newFieldType =
     (if newFieldType = Some FIELD_TYPE_STRING \<or> newFieldType = Some FIELD_TYPE_MARKDOWN
        then (if truthy v then (case to_str v of Inl e \<Rightarrow> Inl e | Inr s \<Rightarrow> Inr (JStr s))
              else Inr (JStr []))
      else if newFieldType = Some FIELD_TYPE_BOOLEAN then Inr (JBool (truthy v))
      else if newFieldType = Some FIELD_TYPE_ARRAY then Inr (JArr [v])
      else Inl UnknownType)"

text \<open>The two callbacks of \<open>updateFieldAt\<close>.\<close>

definition rename_item :: "field \<Rightarrow> field \<Rightarrow> jv \<Rightarrow> error + jv" where
  "rename_item newField prevField item =
     (case get_prop item (slugify (fname prevField)) of
        Inl e \<Rightarrow> Inl e
      | Inr v \<Rightarrow>
          (case set_prop item (slugify (fname newField)) v of
             Inl e \<Rightarrow> Inl e
           | Inr item1 \<Rightarrow> delete_prop item1 (slugify (fname prevField))))"

definition convert_item :: "field \<Rightarrow> field \<Rightarrow> jv \<Rightarrow> error + jv" where
  "convert_item newField prevField item =
     (case get_prop item (slugify (fname newField)) of
        Inl e \<Rightarrow> Inl e
      | Inr v \<Rightarrow>
          (case convert' v (ftype prevField) (ftype newField) of
             Inl e \<Rightarrow> Inl e
           | Inr w \<Rightarrow> set_prop item (slugify (fname newField)) w))"

text \<open>
  \<open>updateFieldAt\<close>; \<open>fieldIdx = None\<close> is an \<open>undefined\<close> index. Reading
  \<open>prevField.name\<close> for an index with no declaration is a \<open>TypeError\<close>, as is
  \<open>node.model.fields\<close> being missing, and as is a projection with no struct node. The
  items are migrated first, by name and then by type, and the declaration is replaced
  last. \<open>Inl\<close> carries the exception and the objects as they are at the throw.
\<close>

definition updateFieldAt :: "node \<Rightarrow> int option \<Rightarrow> fdecl \<Rightarrow> (error \<times> updated_objects) + updated_objects" where
  "updateFieldAt node fieldIdx field =
     (let d0 = map_option data (getStructNode' node)
      in case fields (model node) of
           None \<Rightarrow> Inl (TypeError, Updated d0 None)
         | Some fs \<Rightarrow>
             (case (if fieldIdx = Some (- 1) then None else fieldIdx) of
                None \<Rightarrow> Inr (Updated d0 (Some (fs @ [field])))
              | Some i \<Rightarrow>
                  (let newField = getField field
                   in case getStructNode' node of
                        None \<Rightarrow> Inl (TypeError, Updated d0 (Some fs))
                      | Some structNode \<Rightarrow>
                          if i < 0 \<or> int (length fs) \<le> i then Inl (TypeError, Updated d0 (Some fs))
                          else
                            (let prevField = getField (fs ! nat i);
                                 nodeType = getNodeType structNode
                             in case (if fname newField \<noteq> fname prevField
                                         \<and> (nodeType = TYPE_LIST_OBJECT \<or> nodeType = TYPE_MAP_OBJECT)
                                         \<and> key newField \<noteq> Some True
                                      then forEachDataItem (rename_item newField prevField) structNode
                                      else Inr structNode) of
                                  Inl (e, s1) \<Rightarrow> Inl (e, Updated (Some (data s1)) (Some fs))
                                | Inr s1 \<Rightarrow>
                                    (case (if ftype newField \<noteq> ftype prevField
                                           then forEachDataItem (convert_item newField prevField) s1
                                           else Inr s1) of
                                       Inl (e, s2) \<Rightarrow> Inl (e, Updated (Some (data s2)) (Some fs))
                                     | Inr s2 \<Rightarrow>
                                         Inr (Updated (Some (data s2)) (Some (fs[nat i := field]))))))))"

text \<open>
  \<open>_findNode\<close>. At a TREE level the loop returns at the first child whose slug is the
  next segment, and the default for missing data is computed by
  \<open>getNodeType(childModel)\<close>, which reads \<open>childModel.model.type\<close>: a schema node has no
  \<open>model\<close> property, so that call is a \<open>TypeError\<close>.
\<close>

fun findNode' :: "node \<Rightarrow> string list \<Rightarrow> error + node" where
  "findNode' node [] = Inr node"
| "findNode' node (next # rest) =
     (if getNodeType node = TYPE_TREE then
        (case children (model node) of
           None \<Rightarrow> Inl TypeError
         | Some cs \<Rightarrow>
             (case find (\<lambda>childModel. slugify (name childModel) = next) cs of
                None \<Rightarrow> Inl CouldNotFindChildNamed
              | Some childModel \<Rightarrow>
                  (let tp = path_under (path node) next
                   in case get_prop (data node) next of
                        Inl e \<Rightarrow> Inl e
                      | Inr d \<Rightarrow>
                          if truthy d
                          then findNode' (Node childModel d (Some node) (Some tp) (Some tp) (IdxNum (- 1)) None) rest
                          else Inl TypeError)))
      else if getNodeType node = TYPE_LIST_OBJECT then
        (case get_index (data node) (parseInt next) of
           Inl e \<Rightarrow> Inl e
         | Inr d \<Rightarrow>
             Inr (Node (model node) (if truthy d then d else JObj []) (Some node)
                    (Some (path_under (path node) next)) (path node) (parsed_index next) None))
      else
        (case get_prop (data node) next of
           Inl e \<Rightarrow> Inl e
         | Inr d \<Rightarrow>
             Inr (Node (model node)
                    (if truthy d then d
                     else if getNodeType node = TYPE_MAP_OBJECT then JObj [] else JStr [])
                    (Some node) (Some (path_under (path node) next)) (path node) (IdxKey next) None)))"

definition findNode :: "node \<Rightarrow> path_arg \<Rightarrow> error + node" where
  "findNode node pathArg =
     (case pathArg of
        PStr s \<Rightarrow> if s = [] then Inr node else findNode' node (split_on CHR ''/'' s)
      | PArr segs \<Rightarrow> findNode' node segs)"

text \<open>
  The projection on which the recursion of \<open>_treePathAndIndex\<close> is called once the
  segments \<open>segs\<close> have been taken at levels with schema children.
\<close>

fun descend :: "node \<Rightarrow> string list \<Rightarrow> node option" where
  "descend node [] = Some node"
| "descend node (p # rest) =
     (if has_children node then
        (case findChild' node p of Inl e \<Rightarrow> None | Inr child \<Rightarrow> descend child rest)
      else None)"
section \<open>Data shapes\<close>

text \<open>
  The data of a LIST_OBJECT is a sequence of objects and the data of a MAP_OBJECT is an
  object whose values are objects: the containers whose items carry the declared fields.
\<close>

definition is_object :: "jv \<Rightarrow> bool" where
  "is_object v = (case v of JObj kvs \<Rightarrow> True | _ \<Rightarrow> False)"

definition object_container :: "node \<Rightarrow> bool" where
  "object_container s =
     ((getNodeType s = TYPE_LIST_OBJECT
        \<and> (case data s of JArr xs \<Rightarrow> list_all is_object xs | _ \<Rightarrow> False))
      \<or> (getNodeType s = TYPE_MAP_OBJECT
        \<and> (case data s of
              JObj kvs \<Rightarrow> distinct (map fst kvs) \<and> list_all is_object (map snd kvs)
            | _ \<Rightarrow> False)))"

text \<open>The node type of a schema node: what \<open>getNodeType\<close> gives for its projections.\<close>

definition modelType :: "model \<Rightarrow> string" where
  "modelType m = getNodeType (Node m JUndef None None None IdxMissing None)"

text \<open>The own property keys of a value.\<close>

definition own_keys :: "jv \<Rightarrow> string set" where
  "own_keys v = (case v of JObj kvs \<Rightarrow> fst ` set kvs | _ \<Rightarrow> {})"

text \<open>\<open>addNode\<close>, then \<open>deleteNode\<close> on the projection returned: the parent the two calls leave.\<close>

definition addNode_then_deleteNode :: "node \<Rightarrow> string \<Rightarrow> string \<Rightarrow> error + node" where
  "addNode_then_deleteNode node requestedName nodeType =
     (case addNode node requestedName nodeType of
        Inl (e, n) \<Rightarrow> Inl e
      | Inr proj \<Rightarrow>
          (case deleteNode proj of
             Inl (e, n) \<Rightarrow> Inl e
           | Inr proj' \<Rightarrow> (case parent proj' of None \<Rightarrow> Inl TypeError | Some p \<Rightarrow> Inr p)))"

text \<open>
  What the callbacks of \<open>updateFieldAt\<close> make of an item that is an object: the value
  moved from the key \<open>old\<close> to the key \<open>new\<close>, and the value under \<open>k\<close> replaced by its
  truthiness.
\<close>

definition renamed :: "string \<Rightarrow> string \<Rightarrow> jv \<Rightarrow> jv" where
  "renamed new old item =
     (case item of
        JObj kvs \<Rightarrow> JObj (AList.delete old (own_store new (lookup_prop kvs old) kvs))
      | _ \<Rightarrow> item)"


section \<open>Example trees\<close>

text \<open>A string map as \<open>addNode\<close> creates it, with two entries.\<close>

definition ex_labels :: node where
  "ex_labels =
     Node (Model ''Labels'' None (Some TYPE_MAP_STRING) None
             (Some [Structured \<lparr>fname = ''Key'', ftype = None, key = Some True\<rparr>, Bare ''Value'']))
       (JObj [(''ok'', JStr ''OK''), (''cancel'', JStr ''Cancel'')])
       None (Some ''labels'') (Some ''labels'') (IdxNum (- 1)) None"

text \<open>A TREE node that declares a field, as the editor lets a user add one.\<close>

definition ex_page :: node where
  "ex_page =
     Node (Model ''Page'' (Some []) (Some TYPE_TREE) None (Some [Bare ''Title'']))
       (JObj []) None (Some ''page'') (Some ''page'') (IdxNum (- 1)) None"

text \<open>A list of articles with a plain field and a typed one.\<close>

definition ex_articles :: node where
  "ex_articles =
     Node (Model ''Articles'' None (Some TYPE_LIST_OBJECT) None
             (Some [Bare ''Title'', Structured \<lparr>fname = ''Draft'', ftype = Some FIELD_TYPE_STRING, key = None\<rparr>]))
       (JArr [JObj [(''title'', JStr ''Hello''), (''draft'', JStr ''true'')],
              JObj [(''title'', JStr ''World''), (''draft'', JStr '''')]])
       None (Some ''articles'') (Some ''articles'') (IdxNum (- 1)) None"

text \<open>
  A site whose root holds that list, and the projection of the list that \<open>_findChild\<close>
  builds: it has a \<open>fieldIndex\<close> and no \<open>dataIndex\<close>.
\<close>

definition ex_site :: node where
  "ex_site =
     Node (Model ''Site'' (Some [model ex_articles]) (Some TYPE_TREE) None None)
       (JObj [(''articles'', data ex_articles)])
       None (Some ''site'') (Some ''site'') (IdxNum (- 1)) None"

definition ex_site_articles :: node where
  "ex_site_articles =
     Node (model ex_articles) (data ex_articles) (Some ex_site)
       (Some ''site/articles'') (Some ''site/articles'') IdxMissing (Some (- 1))"

text \<open>A menu with one entry, and the projection of that entry.\<close>

definition ex_menu :: node where
  "ex_menu =
     Node (Model ''Menu'' (Some [Model ''A'' (Some []) (Some TYPE_TREE) None None]) (Some TYPE_TREE) None None)
       (JObj [(''a'', JObj [(''title'', JStr ''First'')])])
       None (Some ''menu'') (Some ''menu'') (IdxNum (- 1)) None"

definition ex_menu_a :: node where
  "ex_menu_a =
     Node (Model ''A'' (Some []) (Some TYPE_TREE) None None)
       (JObj [(''title'', JStr ''First'')])
       (Some ex_menu) (Some ''menu/a'') (Some ''menu/a'') (IdxNum (- 1)) None"

text \<open>
  A shop whose schema has a second entry that has no data yet, and the projection of
  that entry that \<open>_findChild\<close> builds.
\<close>

definition ex_shop :: node where
  "ex_shop =
     Node (Model ''Shop''
             (Some [Model ''A'' (Some []) (Some TYPE_TREE) None None,
                    Model ''B'' (Some []) (Some TYPE_TREE) None None])
             (Some TYPE_TREE) None None)
       (JObj [(''a'', JObj [(''title'', JStr ''First'')])])
       None (Some ''shop'') (Some ''shop'') (IdxNum (- 1)) None"

definition ex_shop_b :: node where
  "ex_shop_b =
     Node (Model ''B'' (Some []) (Some TYPE_TREE) None None) JUndef
       (Some ex_shop) (Some ''shop/b'') (Some ''shop/b'') IdxMissing (Some (- 1))"

text \<open>A root with no schema children and no data yet.\<close>

definition ex_empty :: node where
  "ex_empty =
     Node (Model ''Root'' None None None None) (JObj []) None (Some []) (Some []) (IdxNum (- 1)) None"

text \<open>
  A tree with the schema path \<open>foo/bar\<close> to a list, next to a string map and an object
  map, and the projection of the object map.
\<close>

definition ex_tree :: node where
  "ex_tree =
     Node (Model ''Root''
             (Some [Model ''Foo''
                      (Some [Model ''Bar'' None (Some TYPE_LIST_OBJECT) None (Some [Bare ''Name'']),
                             Model ''Labels'' None (Some TYPE_MAP_STRING) None
                               (Some [Structured \<lparr>fname = ''Key'', ftype = None, key = Some True\<rparr>, Bare ''Value'']),
                             Model ''Authors'' None (Some TYPE_MAP_OBJECT) None
                               (Some [Structured \<lparr>fname = ''Key'', ftype = None, key = Some True\<rparr>, Bare ''Name''])])
                      (Some TYPE_TREE) None None,
                    Model ''Empty'' (Some []) (Some TYPE_TREE) None None])
             (Some TYPE_TREE) None None)
       (JObj [(''foo'', JObj [(''bar'', JArr [JObj [(''name'', JStr ''first'')]]),
                              (''labels'', JObj [(''ok'', JStr ''OK'')]),
                              (''authors'', JObj [(''k1'', JObj [(''name'', JStr ''Ann'')])])]),
              (''empty'', JObj [])])
       None (Some []) (Some []) (IdxNum (- 1)) None"

definition ex_authors :: node where
  "ex_authors =
     Node (Model ''Authors'' None (Some TYPE_MAP_OBJECT) None
             (Some [Structured \<lparr>fname = ''Key'', ftype = None, key = Some True\<rparr>, Bare ''Name'']))
       (JObj [(''k1'', JObj [(''name'', JStr ''Ann'')])])
       None (Some ''foo/authors'') (Some ''foo/authors'') (IdxNum (- 1)) None"

text \<open>The schema of that tree with no data yet.\<close>

definition ex_schema_only :: node where
  "ex_schema_only = Node (model ex_tree) (JObj []) None (Some []) (Some []) (IdxNum (- 1)) None"

section \<open>Basic facts\<close>

lemmas engine_defs =
  getNodeType_def getField_def getFieldAt_def getStructNode'_def setStructNode_def
  getDataItems_def forEachDataItem_def rename_item_def convert_item_def convert'_def
  updateFieldAt_def deleteFieldAt_def checkDeleteFieldAt'_def canDeleteFieldAt_def
  slugify_def lower_char_def is_space_def
  set_data_def set_model_def set_parent_def set_paths_def set_children_def set_fields_def set_name_def
  object_container_def is_object_def own_keys_def
  path_under_def path_str_def
  lookup_prop_def inherited_def object_members_def own_store_def
  own_values_def with_values_def own_property_order_def array_index_def is_digit_def digit_val_def

lemma set_data_sel [simp]:
  "data (set_data d n) = d" "model (set_data d n) = model n" "parent (set_data d n) = parent n"
  "path (set_data d n) = path n" "treePath (set_data d n) = treePath n"
  "dataIndex (set_data d n) = dataIndex n" "fieldIndex (set_data d n) = fieldIndex n"
  by (simp_all add: set_data_def)

lemma set_model_sel [simp]:
  "model (set_model m n) = m" "data (set_model m n) = data n" "parent (set_model m n) = parent n"
  "path (set_model m n) = path n" "treePath (set_model m n) = treePath n"
  "dataIndex (set_model m n) = dataIndex n" "fieldIndex (set_model m n) = fieldIndex n"
  by (simp_all add: set_model_def)

lemma set_parent_sel [simp]:
  "parent (set_parent p n) = p" "model (set_parent p n) = model n" "data (set_parent p n) = data n"
  "path (set_parent p n) = path n" "treePath (set_parent p n) = treePath n"
  "dataIndex (set_parent p n) = dataIndex n" "fieldIndex (set_parent p n) = fieldIndex n"
  by (simp_all add: set_parent_def)

lemma set_paths_sel [simp]:
  "path (set_paths p n) = p" "treePath (set_paths p n) = p" "model (set_paths p n) = model n"
  "data (set_paths p n) = data n" "parent (set_paths p n) = parent n"
  "dataIndex (set_paths p n) = dataIndex n" "fieldIndex (set_paths p n) = fieldIndex n"
  by (simp_all add: set_paths_def)

lemma set_children_sel [simp]:
  "children (set_children c m) = c" "name (set_children c m) = name m"
  "mtype (set_children c m) = mtype m" "list_flag (set_children c m) = list_flag m"
  "fields (set_children c m) = fields m"
  by (simp_all add: set_children_def)

lemma set_fields_sel [simp]:
  "fields (set_fields f m) = f" "name (set_fields f m) = name m"
  "mtype (set_fields f m) = mtype m" "list_flag (set_fields f m) = list_flag m"
  "children (set_fields f m) = children m"
  by (simp_all add: set_fields_def)

lemma set_name_sel [simp]:
  "name (set_name x m) = x" "children (set_name x m) = children m"
  "mtype (set_name x m) = mtype m" "list_flag (set_name x m) = list_flag m"
  "fields (set_name x m) = fields m"
  by (simp_all add: set_name_def)

lemma getNodeType_cong: "mtype (model a) = mtype (model b) \<Longrightarrow> list_flag (model a) = list_flag (model b)
  \<Longrightarrow> getNodeType a = getNodeType b"
  by (simp add: getNodeType_def)

lemma getNodeType_set [simp]:
  "getNodeType (set_data d n) = getNodeType n"
  "getNodeType (set_parent p n) = getNodeType n"
  "getNodeType (set_paths q n) = getNodeType n"
  "getNodeType (set_model (set_fields f (model n)) n) = getNodeType n"
  "getNodeType (set_model (set_children c (model n)) n) = getNodeType n"
  "getNodeType (set_model (set_name x (model n)) n) = getNodeType n"
  by (rule getNodeType_cong; simp)+

lemma forEach_Inr: "(\<And>x. x \<in> set xs \<Longrightarrow> f x = Inr (g x)) \<Longrightarrow> forEach f xs = Inr (map g xs)"
  by (induction xs) auto

subsection \<open>The values of an object\<close>

lemma set_own_property_order [simp]: "set (own_property_order ks) = set ks"
  by (auto simp: own_property_order_def)

lemma own_values_in:
  "x \<in> set (own_values kvs) \<Longrightarrow> x \<in> snd ` set kvs"
proof -
  assume "x \<in> set (own_values kvs)"
  then obtain k where k: "k \<in> fst ` set kvs"
    and x: "x = (case map_of kvs k of None \<Rightarrow> JUndef | Some v \<Rightarrow> v)"
    by (auto simp: own_values_def)
  from k obtain v where v: "map_of kvs k = Some v"
    by (metis domIff dom_map_of_conv_image_fst not_Some_eq)
  with x have "x = v" by simp
  with v show ?thesis by (metis map_of_SomeD image_eqI snd_conv)
qed

lemma own_values_map:
  "own_values (map (\<lambda>(k, v). (k, g v)) kvs) = map g (own_values kvs)"
proof -
  have keys: "map fst (map (\<lambda>(k, v). (k, g v)) kvs) = map fst kvs" by (induction kvs) auto
  have "\<And>k. k \<in> fst ` set kvs \<Longrightarrow>
          (case map_of (map (\<lambda>(k, v). (k, g v)) kvs) k of None \<Rightarrow> JUndef | Some v \<Rightarrow> v)
            = g (case map_of kvs k of None \<Rightarrow> JUndef | Some v \<Rightarrow> v)"
  proof -
    fix k assume "k \<in> fst ` set kvs"
    then obtain v where v: "map_of kvs k = Some v"
      by (metis domIff dom_map_of_conv_image_fst not_Some_eq)
    then show "(case map_of (map (\<lambda>(k, v). (k, g v)) kvs) k of None \<Rightarrow> JUndef | Some v \<Rightarrow> v)
            = g (case map_of kvs k of None \<Rightarrow> JUndef | Some v \<Rightarrow> v)"
      by (simp add: map_of_map)
  qed
  then show ?thesis unfolding own_values_def keys by simp
qed

lemma with_values_map:
  assumes "distinct (map fst kvs)"
  shows "with_values kvs (map g (own_values kvs)) = map (\<lambda>(k, v). (k, g v)) kvs"
proof -
  let ?ks = "own_property_order (map fst kvs)"
  let ?h = "\<lambda>k. case map_of kvs k of None \<Rightarrow> JUndef | Some v \<Rightarrow> v"
  have z: "map_of (zip ?ks (map g (own_values kvs))) =
             (\<lambda>k. if k \<in> set ?ks then Some (g (?h k)) else None)"
    unfolding own_values_def map_map by (simp add: map_of_zip_map comp_def)
  have "\<And>k v. (k, v) \<in> set kvs \<Longrightarrow>
          (case map_of (zip ?ks (map g (own_values kvs))) k of None \<Rightarrow> v | Some y \<Rightarrow> y) = g v"
  proof -
    fix k v assume kv: "(k, v) \<in> set kvs"
    with assms have "map_of kvs k = Some v" by simp
    moreover from kv have "k \<in> set ?ks" by force
    ultimately show "(case map_of (zip ?ks (map g (own_values kvs))) k of None \<Rightarrow> v | Some y \<Rightarrow> y) = g v"
      unfolding z by simp
  qed
  then show ?thesis unfolding with_values_def by (auto intro!: map_cong)
qed

lemma object_container_items:
  "object_container s \<Longrightarrow> \<exists>items. getDataItems s = Inr (JArr items) \<and> list_all is_object items"
  by (auto simp: object_container_def getDataItems_def list_all_iff split: jv.splits
      dest!: own_values_in)

lemma forEachDataItem_objects:
  assumes oc: "object_container s"
    and items: "getDataItems s = Inr (JArr items)"
    and f: "\<And>x. is_object x \<Longrightarrow> f x = Inr (g x)"
  shows "\<exists>s'. forEachDataItem f s = Inr s' \<and> getDataItems s' = Inr (JArr (map g items))
           \<and> model s' = model s \<and> parent s' = parent s \<and> dataIndex s' = dataIndex s
           \<and> path s' = path s \<and> treePath s' = treePath s \<and> fieldIndex s' = fieldIndex s"
proof -
  from oc consider
    (lst) xs where "getNodeType s = TYPE_LIST_OBJECT" "data s = JArr xs" "list_all is_object xs"
    | (mp) kvs where "getNodeType s = TYPE_MAP_OBJECT" "data s = JObj kvs"
        "distinct (map fst kvs)" "list_all is_object (map snd kvs)"
    by (auto simp: object_container_def split: jv.splits)
  then show ?thesis
  proof cases
    case lst
    with items have xs: "items = xs" by (simp add: getDataItems_def)
    from lst f have "forEach f xs = Inr (map g xs)"
      by (intro forEach_Inr) (simp add: list_all_iff)
    with lst xs show ?thesis
      by (simp add: forEachDataItem_def getDataItems_def)
  next
    case mp
    with items have xs: "items = own_values kvs" by (simp add: getDataItems_def)
    from mp f have "forEach f (own_values kvs) = Inr (map g (own_values kvs))"
      by (intro forEach_Inr) (auto simp: list_all_iff dest!: own_values_in)
    with mp xs show ?thesis
      by (simp add: forEachDataItem_def getDataItems_def with_values_map own_values_map)
  qed
qed

lemma rename_item_object:
  "rename_item newField prevField (JObj kvs) =
     Inr (renamed (slugify (fname newField)) (slugify (fname prevField)) (JObj kvs))"
  by (simp add: rename_item_def renamed_def)



lemma renamed_props:
  assumes "is_object item" "new \<noteq> old" "new \<noteq> ''__proto__''"
  shows "get_prop (renamed new old item) new = get_prop item old"
    and "old \<notin> own_keys (renamed new old item)" and "is_object (renamed new old item)"
  using assms
  by (auto simp: is_object_def renamed_def own_keys_def lookup_prop_def own_store_def
      update_conv' delete_notin_dom map_of_delete split: jv.splits)


lemma getDataItems_cong:
  "getNodeType a = getNodeType b \<Longrightarrow> data a = data b \<Longrightarrow> getDataItems a = getDataItems b"
  by (simp add: getDataItems_def)

lemma object_container_type:
  "object_container s \<Longrightarrow> getNodeType s = TYPE_LIST_OBJECT \<or> getNodeType s = TYPE_MAP_OBJECT"
  by (auto simp: object_container_def)

section \<open>Deleting a field\<close>

lemma checkDeleteFieldAt'_cases:
  "checkDeleteFieldAt' node i =
     (if i < 0 then Inl NegativeFieldIndex
      else case fields (model node) of
             None \<Rightarrow> Inl NoFieldAtIndex
           | Some fs \<Rightarrow>
               if int (length fs) \<le> i then Inl NoFieldAtIndex
               else if key (getField (fs ! nat i)) = Some True then Inl CannotDeleteKeyField
               else if getNodeType node = TYPE_MAP_STRING then Inl CannotDeleteValueField
               else Inr (getField (fs ! nat i)))"
  by (simp add: checkDeleteFieldAt'_def getFieldAt_def split: option.splits)

text \<open>
  Claim C6. The spec's \<open>ProtectedFieldError\<close> is the two exceptions of
  \<open>_checkDeleteFieldAt\<close> whose messages start with \<open>Cannot delete\<close>. For every node and
  every index of a declared field, if the field is marked key then \<open>deleteFieldAt\<close>
  throws the key-field exception, and if it is not but the node is a MAP_STRING then it
  throws the value-field exception; in both cases the node, with its schema, its data
  and its parent, is as it was, and \<open>canDeleteFieldAt\<close> returns false.
\<close>

theorem deleteFieldAt_protected:
  assumes "fields (model node) = Some fs" and "0 \<le> i" and "i < int (length fs)"
    and "key (getField (fs ! nat i)) = Some True \<or> getNodeType node = TYPE_MAP_STRING"
  shows "deleteFieldAt node i =
           Inl (if key (getField (fs ! nat i)) = Some True then CannotDeleteKeyField
                else CannotDeleteValueField, node)
         \<and> canDeleteFieldAt node i = False"
  using assms
  by (auto simp: deleteFieldAt_def canDeleteFieldAt_def checkDeleteFieldAt'_cases)

theorem deleteFieldAt_protected_witness:
  "deleteFieldAt ex_labels 0 = Inl (CannotDeleteKeyField, ex_labels)
   \<and> canDeleteFieldAt ex_labels 0 = False
   \<and> deleteFieldAt ex_labels 1 = Inl (CannotDeleteValueField, ex_labels)
   \<and> canDeleteFieldAt ex_labels 1 = False"
proof -
  let ?fs = "[Structured \<lparr>fname = ''Key'', ftype = None, key = Some True\<rparr>, Bare ''Value'']"
  have f: "fields (model ex_labels) = Some ?fs" by (simp add: ex_labels_def)
  have k0: "key (getField (?fs ! nat 0)) = Some True \<or> getNodeType ex_labels = TYPE_MAP_STRING"
    by (simp add: getField_def)
  have k1: "key (getField (?fs ! nat 1)) = Some True \<or> getNodeType ex_labels = TYPE_MAP_STRING"
    by (simp add: ex_labels_def getNodeType_def)
  from deleteFieldAt_protected [OF f _ _ k0] deleteFieldAt_protected [OF f _ _ k1]
  show ?thesis by (simp add: getField_def)
qed

lemma forEach_Inl: "forEach f xs = Inl (e, ys) \<Longrightarrow> \<exists>x\<in>set xs. f x = Inl e"
  by (induction xs arbitrary: ys) (auto split: sum.splits prod.splits)

lemma forEachDataItem_Inl:
  "forEachDataItem f s = Inl (e, s') \<Longrightarrow> e = TypeError \<or> e = CannotListItems \<or> (\<exists>x. f x = Inl e)"
  by (auto simp: forEachDataItem_def split: if_splits jv.splits sum.splits prod.splits dest!: forEach_Inl)

lemma delete_prop_Inl: "delete_prop x k = Inl e \<Longrightarrow> e = TypeError \<or> e = Unmodelled"
  by (cases x) auto

lemma deleteFieldAt_after_check:
  assumes "checkDeleteFieldAt' node i = Inr field" and "deleteFieldAt node i = Inl (e, s)"
  shows "e = TypeError \<or> e = CannotListItems \<or> e = Unmodelled"
  using assms
  by (auto simp: deleteFieldAt_def Let_def split: option.splits sum.splits prod.splits
      dest!: forEachDataItem_Inl delete_prop_Inl)

lemma checkDeleteFieldAt'_Inl:
  "checkDeleteFieldAt' node i = Inl e \<Longrightarrow>
     e \<in> {NegativeFieldIndex, NoFieldAtIndex, CannotDeleteKeyField, CannotDeleteValueField}"
  by (auto simp: checkDeleteFieldAt'_cases split: if_splits option.splits)

text \<open>
  Claim C9, amended. \<open>canDeleteFieldAt\<close> wraps \<open>_checkDeleteFieldAt\<close> only. For every
  node and every index: a negative index, and an index with no declared field (beyond
  the declared fields, or no fields declared), make \<open>canDeleteFieldAt\<close> return false
  where \<open>deleteFieldAt\<close> throws \<open>Negative field index\<close> and \<open>No field at index\<close>; and
  \<open>canDeleteFieldAt\<close> returns false exactly when \<open>deleteFieldAt\<close> throws one of the four
  exceptions of the check, which leaves the node as it was.
\<close>

theorem canDeleteFieldAt_check:
  "(i < 0 \<longrightarrow> canDeleteFieldAt node i = False \<and> deleteFieldAt node i = Inl (NegativeFieldIndex, node))
   \<and> (0 \<le> i \<and> (case fields (model node) of None \<Rightarrow> True | Some fs \<Rightarrow> int (length fs) \<le> i) \<longrightarrow>
        canDeleteFieldAt node i = False \<and> deleteFieldAt node i = Inl (NoFieldAtIndex, node))
   \<and> (canDeleteFieldAt node i = False) =
       (\<exists>e. e \<in> {NegativeFieldIndex, NoFieldAtIndex, CannotDeleteKeyField, CannotDeleteValueField}
          \<and> deleteFieldAt node i = Inl (e, node))"
proof (intro conjI impI)
  assume "i < 0"
  then show "canDeleteFieldAt node i = False"
    by (simp add: canDeleteFieldAt_def checkDeleteFieldAt'_cases)
next
  assume "i < 0"
  then show "deleteFieldAt node i = Inl (NegativeFieldIndex, node)"
    by (simp add: deleteFieldAt_def checkDeleteFieldAt'_cases)
next
  assume a: "0 \<le> i \<and> (case fields (model node) of None \<Rightarrow> True | Some fs \<Rightarrow> int (length fs) \<le> i)"
  then show "canDeleteFieldAt node i = False"
    by (auto simp: canDeleteFieldAt_def checkDeleteFieldAt'_cases split: option.splits)
next
  assume a: "0 \<le> i \<and> (case fields (model node) of None \<Rightarrow> True | Some fs \<Rightarrow> int (length fs) \<le> i)"
  then show "deleteFieldAt node i = Inl (NoFieldAtIndex, node)"
    by (auto simp: deleteFieldAt_def checkDeleteFieldAt'_cases split: option.splits)
next
  show "(canDeleteFieldAt node i = False) =
       (\<exists>e. e \<in> {NegativeFieldIndex, NoFieldAtIndex, CannotDeleteKeyField, CannotDeleteValueField}
          \<and> deleteFieldAt node i = Inl (e, node))"
  proof (cases "checkDeleteFieldAt' node i")
    case (Inl e)
    then have "deleteFieldAt node i = Inl (e, node)" by (simp add: deleteFieldAt_def)
    with Inl checkDeleteFieldAt'_Inl[OF Inl] show ?thesis
      by (auto simp: canDeleteFieldAt_def)
  next
    case (Inr field)
    then have "canDeleteFieldAt node i" by (simp add: canDeleteFieldAt_def)
    moreover have "\<not> (\<exists>e. e \<in> {NegativeFieldIndex, NoFieldAtIndex, CannotDeleteKeyField, CannotDeleteValueField}
          \<and> deleteFieldAt node i = Inl (e, node))"
      using deleteFieldAt_after_check[OF Inr] by auto
    ultimately show ?thesis by simp
  qed
qed

theorem canDeleteFieldAt_check_witness:
  "canDeleteFieldAt ex_labels (- 1) = False
   \<and> deleteFieldAt ex_labels (- 1) = Inl (NegativeFieldIndex, ex_labels)
   \<and> canDeleteFieldAt ex_labels 2 = False
   \<and> deleteFieldAt ex_labels 2 = Inl (NoFieldAtIndex, ex_labels)"
  using canDeleteFieldAt_check [of "- 1" ex_labels] canDeleteFieldAt_check [of 2 ex_labels]
  by (simp add: ex_labels_def)

text \<open>
  The claim as stated, for a failure of \<open>deleteFieldAt\<close> of any kind, does not hold: on a
  TREE node with a declared field the check passes, \<open>canDeleteFieldAt\<close> returns true, and
  \<open>deleteFieldAt\<close> throws in \<open>getDataItems\<close>, which lists no items for a TREE.
\<close>

theorem canDeleteFieldAt_misses_later_failure:
  "canDeleteFieldAt ex_page 0 = True \<and> deleteFieldAt ex_page 0 = Inl (CannotListItems, ex_page)"
  by (simp add: canDeleteFieldAt_def deleteFieldAt_def checkDeleteFieldAt'_cases ex_page_def
      getField_def getNodeType_def getStructNode'_def setStructNode_def forEachDataItem_def)

section \<open>Renaming and retyping a field\<close>

lemma items_of_struct:
  assumes "model s1 = model s"
  shows "getDataItems (set_data (data s1) s) = getDataItems s1"
proof (rule getDataItems_cong)
  have "getNodeType s = getNodeType s1" using assms by (intro getNodeType_cong) simp_all
  then show "getNodeType (set_data (data s1) s) = getNodeType s1" by simp
  show "data (set_data (data s1) s) = data s1" by simp
qed

text \<open>
  Claim C2, amended. The struct node of a projection is the projection itself when its
  \<open>dataIndex\<close> is \<open>-1\<close>, and its parent otherwise. Let the struct node of \<open>node\<close> be a
  LIST_OBJECT or MAP_OBJECT whose items are objects, \<open>i\<close> the index of a declared field,
  and \<open>field\<close> a replacement that is not a key field, has the type of the previous
  declaration, and whose name has a slug that is neither the slug of the previous name
  nor \<open>__proto__\<close>. Then \<open>updateFieldAt\<close> returns, the declaration at \<open>i\<close> is \<open>field\<close>,
  and every item holds under the slug of the new name what a read under the slug of the
  old name gave before, the slug of the old name being no key of it any more.
\<close>

theorem updateFieldAt_rename:
  assumes st: "getStructNode' node = Some s" and oc: "object_container s"
    and items: "getDataItems s = Inr (JArr items)"
    and fs: "fields (model node) = Some fs" and i: "0 \<le> i" "i < int (length fs)"
    and slug: "slugify (fname (getField field)) \<noteq> slugify (fname (getField (fs ! nat i)))"
    and proto: "slugify (fname (getField field)) \<noteq> ''__proto__''"
    and nokey: "key (getField field) \<noteq> Some True"
    and ty: "ftype (getField field) = ftype (getField (fs ! nat i))"
  shows "\<exists>d' items'.
           updateFieldAt node (Some i) field = Inr (Updated (Some d') (Some (fs[nat i := field])))
         \<and> getDataItems (set_data d' s) = Inr (JArr items')
         \<and> length items' = length items
         \<and> (\<forall>j<length items.
               get_prop (items' ! j) (slugify (fname (getField field)))
                 = get_prop (items ! j) (slugify (fname (getField (fs ! nat i))))
             \<and> slugify (fname (getField (fs ! nat i))) \<notin> own_keys (items' ! j))"
proof -
  let ?new = "slugify (fname (getField field))"
  let ?old = "slugify (fname (getField (fs ! nat i)))"
  let ?g = "renamed ?new ?old"
  from slug have names: "fname (getField field) \<noteq> fname (getField (fs ! nat i))" by auto
  have f: "\<And>x. is_object x \<Longrightarrow> rename_item (getField field) (getField (fs ! nat i)) x = Inr (?g x)"
    by (auto simp: is_object_def rename_item_object split: jv.splits)
  from forEachDataItem_objects[where f = "rename_item (getField field) (getField (fs ! nat i))"
      and g = ?g, OF oc items f] obtain s1 where
    s1: "forEachDataItem (rename_item (getField field) (getField (fs ! nat i))) s = Inr s1"
    and it1: "getDataItems s1 = Inr (JArr (map ?g items))" and m1: "model s1 = model s"
    by blast
  from i have ni: "i \<noteq> - 1" by simp
  have upd: "updateFieldAt node (Some i) field = Inr (Updated (Some (data s1)) (Some (fs[nat i := field])))"
    using fs st i ni names nokey ty object_container_type[OF oc] s1
    by (auto simp: updateFieldAt_def Let_def)
  have ds: "getDataItems (set_data (data s1) s) = Inr (JArr (map ?g items))"
    using items_of_struct[OF m1] it1 by simp
  from object_container_items[OF oc] items have obj: "list_all is_object items" by simp
  have each: "\<forall>j<length items. get_prop (map ?g items ! j) ?new = get_prop (items ! j) ?old
       \<and> ?old \<notin> own_keys (map ?g items ! j)"
    using obj slug proto by (auto simp: list_all_length renamed_props)
  from upd ds each show ?thesis
    by (intro exI[of _ "data s1"] exI[of _ "map ?g items"]) simp
qed

theorem updateFieldAt_rename_witness:
  "getStructNode' ex_articles = Some ex_articles \<and> object_container ex_articles
   \<and> slugify ''Headline'' = ''headline'' \<and> slugify ''Title'' = ''title''
   \<and> updateFieldAt ex_articles (Some 0) (Bare ''Headline'') =
       Inr (Updated
              (Some (JArr [JObj [(''draft'', JStr ''true''), (''headline'', JStr ''Hello'')],
                           JObj [(''draft'', JStr []), (''headline'', JStr ''World'')]]))
              (Some [Bare ''Headline'',
                     Structured \<lparr>fname = ''Draft'', ftype = Some FIELD_TYPE_STRING, key = None\<rparr>]))"
proof -
  let ?items = "[JObj [(''title'', JStr ''Hello''), (''draft'', JStr ''true'')],
                 JObj [(''title'', JStr ''World''), (''draft'', JStr [])]]"
  let ?fs = "[Bare ''Title'', Structured \<lparr>fname = ''Draft'', ftype = Some FIELD_TYPE_STRING, key = None\<rparr>]"
  have h1: "getStructNode' ex_articles = Some ex_articles" by (simp add: ex_articles_def engine_defs)
  have h2: "object_container ex_articles" by (simp add: ex_articles_def engine_defs)
  have h3: "getDataItems ex_articles = Inr (JArr ?items)" by (simp add: ex_articles_def engine_defs)
  have h4: "fields (model ex_articles) = Some ?fs" by (simp add: ex_articles_def)
  have sl: "slugify ''Headline'' = ''headline''" "slugify ''Title'' = ''title''"
    by (simp_all add: engine_defs)
  have h5: "slugify (fname (getField (Bare ''Headline''))) \<noteq> slugify (fname (getField (?fs ! nat 0)))"
    by (simp add: getField_def sl)
  have h5': "slugify (fname (getField (Bare ''Headline''))) \<noteq> ''__proto__''"
    by (simp add: getField_def sl)
  have h6: "key (getField (Bare ''Headline'')) \<noteq> Some True" by (simp add: getField_def)
  have h7: "ftype (getField (Bare ''Headline'')) = ftype (getField (?fs ! nat 0))" by (simp add: getField_def)
  have ev: "updateFieldAt ex_articles (Some 0) (Bare ''Headline'') =
       Inr (Updated
              (Some (JArr [JObj [(''draft'', JStr ''true''), (''headline'', JStr ''Hello'')],
                           JObj [(''draft'', JStr []), (''headline'', JStr ''World'')]]))
              (Some [Bare ''Headline'',
                     Structured \<lparr>fname = ''Draft'', ftype = Some FIELD_TYPE_STRING, key = None\<rparr>]))"
    by (simp add: ex_articles_def engine_defs)
  from updateFieldAt_rename[OF h1 h2 h3 h4 _ _ h5 h5' h6 h7] h1 h2 sl ev show ?thesis by simp
qed

text \<open>
  The claim as stated, for every container and every replacement that differs in its
  name only, does not hold, in three ways. Two names that differ have one slug when they
  differ in case only: the value is then copied onto itself and deleted, and every item
  loses it. A new name whose slug is \<open>__proto__\<close> names no property that an assignment
  creates, so the value is deleted and stored nowhere. And the projection of a list that
  \<open>_findChild\<close> builds has no \<open>dataIndex\<close>, so that its struct node is its parent, a
  TREE: the declaration is renamed and no item is touched.
\<close>

theorem updateFieldAt_rename_same_slug:
  "getDataItems ex_articles =
     Inr (JArr [JObj [(''title'', JStr ''Hello''), (''draft'', JStr ''true'')],
                JObj [(''title'', JStr ''World''), (''draft'', JStr [])]])
   \<and> slugify ''TITLE'' = ''title''
   \<and> updateFieldAt ex_articles (Some 0) (Bare ''TITLE'') =
       Inr (Updated
              (Some (JArr [JObj [(''draft'', JStr ''true'')], JObj [(''draft'', JStr [])]]))
              (Some [Bare ''TITLE'',
                     Structured \<lparr>fname = ''Draft'', ftype = Some FIELD_TYPE_STRING, key = None\<rparr>]))
   \<and> slugify ''__proto__'' = ''__proto__''
   \<and> updateFieldAt ex_articles (Some 0) (Bare ''__proto__'') =
       Inr (Updated
              (Some (JArr [JObj [(''draft'', JStr ''true'')], JObj [(''draft'', JStr [])]]))
              (Some [Bare ''__proto__'',
                     Structured \<lparr>fname = ''Draft'', ftype = Some FIELD_TYPE_STRING, key = None\<rparr>]))
   \<and> findChild' ex_site ''articles'' = Inr ex_site_articles
   \<and> getNodeType ex_site_articles = TYPE_LIST_OBJECT
   \<and> updateFieldAt ex_site_articles (Some 0) (Bare ''Headline'') =
       Inr (Updated
              (Some (JObj [(''articles'',
                       JArr [JObj [(''title'', JStr ''Hello''), (''draft'', JStr ''true'')],
                             JObj [(''title'', JStr ''World''), (''draft'', JStr [])]])]))
              (Some [Bare ''Headline'',
                     Structured \<lparr>fname = ''Draft'', ftype = Some FIELD_TYPE_STRING, key = None\<rparr>]))"
proof -
  have a: "getDataItems ex_articles =
     Inr (JArr [JObj [(''title'', JStr ''Hello''), (''draft'', JStr ''true'')],
                JObj [(''title'', JStr ''World''), (''draft'', JStr [])]])"
    by (simp add: ex_articles_def engine_defs)
  have b: "slugify ''TITLE'' = ''title''" "slugify ''__proto__'' = ''__proto__''"
    by (simp_all add: engine_defs)
  have c: "updateFieldAt ex_articles (Some 0) (Bare ''TITLE'') =
       Inr (Updated
              (Some (JArr [JObj [(''draft'', JStr ''true'')], JObj [(''draft'', JStr [])]]))
              (Some [Bare ''TITLE'',
                     Structured \<lparr>fname = ''Draft'', ftype = Some FIELD_TYPE_STRING, key = None\<rparr>]))"
    by (simp add: ex_articles_def engine_defs)
  have d: "updateFieldAt ex_articles (Some 0) (Bare ''__proto__'') =
       Inr (Updated
              (Some (JArr [JObj [(''draft'', JStr ''true'')], JObj [(''draft'', JStr [])]]))
              (Some [Bare ''__proto__'',
                     Structured \<lparr>fname = ''Draft'', ftype = Some FIELD_TYPE_STRING, key = None\<rparr>]))"
    by (simp add: ex_articles_def engine_defs)
  have e: "findChild' ex_site ''articles'' = Inr ex_site_articles"
    by (simp add: findChild'_def ex_site_def ex_site_articles_def ex_articles_def Let_def engine_defs)
  have f: "getNodeType ex_site_articles = TYPE_LIST_OBJECT"
    by (simp add: ex_site_articles_def ex_articles_def getNodeType_def)
  have g: "updateFieldAt ex_site_articles (Some 0) (Bare ''Headline'') =
       Inr (Updated
              (Some (JObj [(''articles'',
                       JArr [JObj [(''title'', JStr ''Hello''), (''draft'', JStr ''true'')],
                             JObj [(''title'', JStr ''World''), (''draft'', JStr [])]])]))
              (Some [Bare ''Headline'',
                     Structured \<lparr>fname = ''Draft'', ftype = Some FIELD_TYPE_STRING, key = None\<rparr>]))"
    by (simp add: ex_site_articles_def ex_site_def ex_articles_def engine_defs)
  from a b c d e f g show ?thesis by simp
qed






section \<open>Renaming a node\<close>

text \<open>
  Claim C3, amended. For every node whose parent holds an object as its data, and every
  new name whose slug is neither the slug of the old name nor \<open>__proto__\<close>,
  \<open>renameNode\<close> returns, the display name of the schema node is the new name and the
  rest of the schema node is as it was, the parent's data holds under the slug of the
  new name what a read under the slug of the old name gave before, the slug of the old
  name is no key of it any more, and \<open>path\<close> and \<open>treePath\<close> are the parent's path, a
  slash and the new slug (the new slug alone under a parent with an empty or missing
  path).
\<close>

theorem renameNode_moves_data:
  assumes p: "parent node = Some p" and d: "data p = JObj kvs"
    and slug: "slugify newName \<noteq> slugify (name (model node))"
    and proto: "slugify newName \<noteq> ''__proto__''"
  shows "\<exists>m' d'.
           renameNode node newName =
             Inr (Renamed m' (Some (path_under (path p) (slugify newName)))
                    (Some (path_under (path p) (slugify newName))) (Some d'))
         \<and> name m' = newName
         \<and> children m' = children (model node) \<and> mtype m' = mtype (model node)
         \<and> list_flag m' = list_flag (model node) \<and> fields m' = fields (model node)
         \<and> get_prop d' (slugify newName) = get_prop (data p) (slugify (name (model node)))
         \<and> slugify (name (model node)) \<notin> own_keys d'"
proof -
  let ?new = "slugify newName"
  let ?old = "slugify (name (model node))"
  let ?d' = "JObj (AList.delete ?old (own_store ?new (lookup_prop kvs ?old) kvs))"
  have r: "renameNode node newName =
      Inr (Renamed (set_name newName (model node)) (Some (path_under (path p) ?new))
             (Some (path_under (path p) ?new)) (Some ?d'))"
    using p d by (simp add: renameNode_def Let_def)
  have g: "get_prop ?d' ?new = get_prop (data p) ?old"
    using d slug proto
    by (simp add: lookup_prop_def own_store_def update_conv' map_of_delete)
  have k: "?old \<notin> own_keys ?d'" by (simp add: own_keys_def delete_notin_dom)
  from r g k show ?thesis
    by (intro exI[of _ "set_name newName (model node)"] exI[of _ ?d']) simp
qed

theorem renameNode_moves_data_witness:
  "parent ex_menu_a = Some ex_menu
   \<and> slugify ''Start here'' = ''start_here'' \<and> slugify (name (model ex_menu_a)) = ''a''
   \<and> renameNode ex_menu_a ''Start here'' =
        Inr (Renamed (Model ''Start here'' (Some []) (Some TYPE_TREE) None None)
               (Some ''menu/start_here'') (Some ''menu/start_here'')
               (Some (JObj [(''start_here'', JObj [(''title'', JStr ''First'')])])))"
proof -
  have h1: "parent ex_menu_a = Some ex_menu" by (simp add: ex_menu_a_def)
  have h2: "data ex_menu = JObj [(''a'', JObj [(''title'', JStr ''First'')])]" by (simp add: ex_menu_def)
  have sl: "slugify ''Start here'' = ''start_here''" "slugify (name (model ex_menu_a)) = ''a''"
    by (simp_all add: ex_menu_a_def engine_defs)
  have h3: "slugify ''Start here'' \<noteq> slugify (name (model ex_menu_a))" unfolding sl by simp
  have h4: "slugify ''Start here'' \<noteq> ''__proto__''" unfolding sl by simp
  have ev: "renameNode ex_menu_a ''Start here'' =
        Inr (Renamed (Model ''Start here'' (Some []) (Some TYPE_TREE) None None)
               (Some ''menu/start_here'') (Some ''menu/start_here'')
               (Some (JObj [(''start_here'', JObj [(''title'', JStr ''First'')])])))"
    unfolding renameNode_def Let_def sl
    by (simp add: sl ex_menu_a_def ex_menu_def path_under_def set_name_def lookup_prop_def own_store_def)
  from renameNode_moves_data[OF h1 h2 h3 h4] h1 sl ev show ?thesis by simp
qed

text \<open>
  The claim as stated, for every new name, does not hold, in two ways. A new name with
  the slug of the old one (here the old name in lower case) has the data copied onto
  itself and then deleted, so the parent holds nothing under the slug of the new name.
  And a new name whose slug is \<open>__proto__\<close> names no property that an assignment
  creates: for an entry of the schema that has no data yet, \<open>undefined\<close> is assigned,
  which the setter ignores, and a read under the new slug gives \<open>Object.prototype\<close>.
\<close>

theorem renameNode_same_slug:
  "get_prop (data ex_menu) (slugify ''A'') = Inr (JObj [(''title'', JStr ''First'')])
   \<and> slugify ''a'' = slugify ''A''
   \<and> renameNode ex_menu_a ''a'' =
        Inr (Renamed (Model ''a'' (Some []) (Some TYPE_TREE) None None)
               (Some ''menu/a'') (Some ''menu/a'') (Some (JObj [])))
   \<and> get_prop (JObj []) (slugify ''a'') = Inr JUndef
   \<and> findChild' ex_shop ''b'' = Inr ex_shop_b
   \<and> get_prop (data ex_shop) (slugify ''B'') = Inr JUndef
   \<and> renameNode ex_shop_b ''__proto__'' =
        Inr (Renamed (Model ''__proto__'' (Some []) (Some TYPE_TREE) None None)
               (Some ''shop/__proto__'') (Some ''shop/__proto__'')
               (Some (JObj [(''a'', JObj [(''title'', JStr ''First'')])])))
   \<and> get_prop (JObj [(''a'', JObj [(''title'', JStr ''First'')])]) (slugify ''__proto__'')
        = Inr (JNative ''Object.prototype'')"
proof -
  have sl: "slugify ''A'' = ''a''" "slugify ''a'' = ''a''" "slugify ''B'' = ''b''"
    "slugify ''__proto__'' = ''__proto__''"
    by (simp_all add: engine_defs)
  have a: "get_prop (data ex_menu) (slugify ''A'') = Inr (JObj [(''title'', JStr ''First'')])"
    unfolding sl by (simp add: ex_menu_def lookup_prop_def)
  have b: "renameNode ex_menu_a ''a'' =
        Inr (Renamed (Model ''a'' (Some []) (Some TYPE_TREE) None None)
               (Some ''menu/a'') (Some ''menu/a'') (Some (JObj [])))"
    unfolding renameNode_def Let_def
    by (simp add: sl ex_menu_a_def ex_menu_def path_under_def set_name_def lookup_prop_def own_store_def)
  have c: "get_prop (JObj []) (slugify ''a'') = Inr JUndef"
    unfolding sl by (simp add: lookup_prop_def inherited_def object_members_def)
  have d: "findChild' ex_shop ''b'' = Inr ex_shop_b"
    by (simp add: findChild'_def sl ex_shop_def ex_shop_b_def Let_def path_str_def
        lookup_prop_def inherited_def object_members_def)
  have e: "get_prop (data ex_shop) (slugify ''B'') = Inr JUndef"
    unfolding sl by (simp add: ex_shop_def lookup_prop_def inherited_def object_members_def)
  have f: "renameNode ex_shop_b ''__proto__'' =
        Inr (Renamed (Model ''__proto__'' (Some []) (Some TYPE_TREE) None None)
               (Some ''shop/__proto__'') (Some ''shop/__proto__'')
               (Some (JObj [(''a'', JObj [(''title'', JStr ''First'')])])))"
    unfolding renameNode_def Let_def
    by (simp add: sl ex_shop_b_def ex_shop_def path_under_def set_name_def lookup_prop_def
        own_store_def inherited_def object_members_def)
  have g: "get_prop (JObj [(''a'', JObj [(''title'', JStr ''First'')])]) (slugify ''__proto__'')
        = Inr (JNative ''Object.prototype'')"
    unfolding sl by (simp add: lookup_prop_def inherited_def object_members_def)
  from a b c d e f g sl show ?thesis by simp
qed

section \<open>Adding and deleting a node\<close>

lemma delete_own_store: "AList.delete k (own_store k v kvs) = AList.delete k kvs"
  by (simp add: own_store_def delete_update_same)

lemma list_ex_names: "list_ex (\<lambda>child. name child = x) cs = (x \<in> name ` set cs)"
  by (auto simp: list_ex_iff)

lemma findNewNodeName'_first:
  "\<exists>k\<ge>idx. findNewNodeName' node r idx = fullName r k \<and> fullName r k \<notin> sibling_names node
      \<and> (\<forall>j. idx \<le> j \<and> j < k \<longrightarrow> fullName r j \<in> sibling_names node)"
proof (induction node r idx rule: findNewNodeName'.induct)
  case (1 node newName idx)
  show ?case
  proof (cases "fullName newName idx \<in> sibling_names node")
    case False
    then have "findNewNodeName' node newName idx = fullName newName idx"
      by (subst findNewNodeName'.simps) (simp add: sibling_names_def list_ex_names split: option.splits)
    with False show ?thesis by (intro exI[of _ idx]) auto
  next
    case True
    then obtain cs where cs: "children (model node) = Some cs"
      and ex: "list_ex (\<lambda>child. name child = fullName newName idx) cs"
      by (auto simp: sibling_names_def list_ex_names split: option.splits)
    then have eq: "findNewNodeName' node newName idx = findNewNodeName' node newName (idx + 1)"
      by (subst findNewNodeName'.simps) simp
    from "1.IH"[OF cs ex] obtain k where k: "idx + 1 \<le> k"
      "findNewNodeName' node newName (idx + 1) = fullName newName k"
      "fullName newName k \<notin> sibling_names node"
      "\<forall>j. idx + 1 \<le> j \<and> j < k \<longrightarrow> fullName newName j \<in> sibling_names node" by blast
    have "\<forall>j. idx \<le> j \<and> j < k \<longrightarrow> fullName newName j \<in> sibling_names node"
    proof (intro allI impI)
      fix j assume j: "idx \<le> j \<and> j < k"
      show "fullName newName j \<in> sibling_names node"
      proof (cases "j = idx")
        case True with \<open>fullName newName idx \<in> sibling_names node\<close> show ?thesis by simp
      next
        case False with j k(4) show ?thesis by simp
      qed
    qed
    with k eq show ?thesis by (intro exI[of _ k]) auto
  qed
qed

lemma findNewNodeName'_fresh: "findNewNodeName' node r idx \<notin> sibling_names node"
  using findNewNodeName'_first[of idx node r] by auto

lemma splice_named_last:
  "nm \<notin> name ` set cs \<Longrightarrow> name m = nm \<Longrightarrow> splice_named nm (cs @ [m]) = Some cs"
  by (induction cs) auto

lemma deleteNode_last:
  assumes "parent proj = Some p" and "children (model p) = Some (cs @ [m])"
    and "name m = name (model proj)" and "name (model proj) \<notin> name ` set cs"
    and "data p = JObj kvs'"
  shows "deleteNode proj =
           Inr (set_parent
                  (Some (set_data (JObj (AList.delete (slugify (name (model proj))) kvs'))
                           (set_model (set_children (Some cs) (model p)) p)))
                  proj)"
  using assms by (simp add: deleteNode_def splice_named_last)

lemma addNode_object:
  assumes d: "data node = JObj kvs" and nm: "nm = findNewNodeName' node requestedName 1"
  shows "\<exists>proj. addNode node requestedName nodeType = Inr proj
         \<and> name (model proj) = nm
         \<and> parent proj =
             Some (set_data (JObj (own_store (slugify nm) (data proj) kvs))
                     (set_model (set_children
                         (Some ((case children (model node) of None \<Rightarrow> [] | Some cs \<Rightarrow> cs) @ [model proj]))
                         (model node)) node))
         \<and> path proj = Some (path_str (path node) @ ''/'' @ slugify nm)
         \<and> treePath proj = path proj \<and> dataIndex proj = IdxNum (- 1)"
  using d unfolding nm by (simp add: addNode_def Let_def)

lemma findNewNodeName'_taken:
  "fullName r i \<in> sibling_names node \<Longrightarrow> findNewNodeName' node r i = findNewNodeName' node r (i + 1)"
  by (subst findNewNodeName'.simps)
    (auto simp: sibling_names_def list_ex_names split: option.splits)

lemma findNewNodeName'_free:
  "fullName r i \<notin> sibling_names node \<Longrightarrow> findNewNodeName' node r i = fullName r i"
  by (subst findNewNodeName'.simps)
    (auto simp: sibling_names_def list_ex_names split: option.splits)

lemma addNode_name:
  assumes d: "data node = JObj kvs"
  shows "\<exists>proj p' kvs' k. addNode node requestedName nodeType = Inr proj \<and> parent proj = Some p'
           \<and> data p' = JObj kvs'
           \<and> 1 \<le> k \<and> name (model proj) = fullName requestedName k
           \<and> fullName requestedName k \<notin> sibling_names node
           \<and> (\<forall>j. 1 \<le> j \<and> j < k \<longrightarrow> fullName requestedName j \<in> sibling_names node)
           \<and> sibling_names p' = insert (fullName requestedName k) (sibling_names node)"
proof -
  from addNode_object[OF d refl, of requestedName nodeType] obtain proj where
    add: "addNode node requestedName nodeType = Inr proj"
    and nm: "name (model proj) = findNewNodeName' node requestedName 1"
    and par: "parent proj =
             Some (set_data (JObj (own_store (slugify (findNewNodeName' node requestedName 1)) (data proj) kvs))
                     (set_model (set_children
                         (Some ((case children (model node) of None \<Rightarrow> [] | Some cs \<Rightarrow> cs) @ [model proj]))
                         (model node)) node))"
    by blast
  from findNewNodeName'_first[of 1 node requestedName] obtain k where
    k: "1 \<le> k" "findNewNodeName' node requestedName 1 = fullName requestedName k"
       "fullName requestedName k \<notin> sibling_names node"
       "\<forall>j. 1 \<le> j \<and> j < k \<longrightarrow> fullName requestedName j \<in> sibling_names node" by blast
  let ?p' = "set_data (JObj (own_store (slugify (findNewNodeName' node requestedName 1)) (data proj) kvs))
                     (set_model (set_children
                         (Some ((case children (model node) of None \<Rightarrow> [] | Some cs \<Rightarrow> cs) @ [model proj]))
                         (model node)) node)"
  have "sibling_names ?p' = insert (fullName requestedName k) (sibling_names node)"
    using nm k(2) by (cases "children (model node)") (auto simp: sibling_names_def)
  with add par k nm show ?thesis by auto
qed

lemma first_free_unique:
  assumes "1 \<le> k" "fullName r k \<notin> S" "\<forall>j. 1 \<le> j \<and> j < k \<longrightarrow> fullName r j \<in> S"
    and "1 \<le> n" "fullName r n \<notin> S"
  shows "k \<le> n"
  using assms by (meson not_le)

lemma fullName_1: "fullName r 1 = r" "fullName r (Suc 0) = r"
  by (simp_all add: fullName_def)

lemma fullName_A: "fullName ''A'' 2 = ''A (2)''" "fullName ''A'' 3 = ''A (3)''"
  by (simp_all add: fullName_def show_nat.simps digit_char_def)

text \<open>
  Claim C1, amended. For every parent node whose data is an object, every requested name
  and every node type: if the slug of the name \<open>addNode\<close> chooses is not yet a key of the
  parent's data, then \<open>addNode\<close> followed by \<open>deleteNode\<close> on the projection returned
  leaves the parent's data as it was before, and the parent's children as they were
  before, a missing children sequence having become the empty one. A parent that had a
  children sequence is as a whole what it was.
\<close>

theorem addNode_deleteNode_roundtrip:
  assumes d: "data node = JObj kvs"
    and fresh: "slugify (findNewNodeName' node requestedName 1) \<notin> own_keys (data node)"
  shows "\<exists>p'. addNode_then_deleteNode node requestedName nodeType = Inr p'
           \<and> data p' = data node
           \<and> children (model p') = Some (case children (model node) of None \<Rightarrow> [] | Some cs \<Rightarrow> cs)
           \<and> (children (model node) \<noteq> None \<longrightarrow> p' = node)"
proof -
  define nm where "nm = findNewNodeName' node requestedName 1"
  let ?cs = "case children (model node) of None \<Rightarrow> [] | Some cs \<Rightarrow> cs"
  from addNode_object[OF d nm_def, of nodeType] obtain proj where
    add: "addNode node requestedName nodeType = Inr proj"
    and nm: "name (model proj) = nm"
    and par: "parent proj =
             Some (set_data (JObj (own_store (slugify nm) (data proj) kvs))
                     (set_model (set_children (Some (?cs @ [model proj])) (model node)) node))"
    by blast
  let ?p1 = "set_data (JObj (own_store (slugify nm) (data proj) kvs))
                     (set_model (set_children (Some (?cs @ [model proj])) (model node)) node)"
  have notin: "name (model proj) \<notin> name ` set ?cs"
    using findNewNodeName'_fresh[of node requestedName 1] nm nm_def
    by (cases "children (model node)") (simp_all add: sibling_names_def)
  from fresh d have k: "slugify nm \<notin> fst ` set kvs" by (simp add: own_keys_def nm_def)
  have del: "AList.delete (slugify nm) (own_store (slugify nm) (data proj) kvs) = kvs"
  proof -
    have d0: "AList.delete (slugify nm) kvs = kvs" by (rule delete_id[OF k])
    show ?thesis by (simp only: delete_own_store d0)
  qed
  let ?p' = "set_data (JObj kvs) (set_model (set_children (Some ?cs) (model node)) node)"
  have ch: "children (model ?p1) = Some (?cs @ [model proj])" by simp
  have dt: "data ?p1 = JObj (own_store (slugify nm) (data proj) kvs)" by simp
  have "deleteNode proj =
      Inr (set_parent (Some (set_data (JObj (AList.delete (slugify (name (model proj)))
               (own_store (slugify nm) (data proj) kvs)))
             (set_model (set_children (Some ?cs) (model ?p1)) ?p1))) proj)"
    by (rule deleteNode_last[OF par ch refl notin dt])
  also have "\<dots> = Inr (set_parent (Some ?p') proj)"
    by (simp add: nm del set_data_def set_model_def set_children_def)
  finally have dl: "deleteNode proj = Inr (set_parent (Some ?p') proj)" .
  have r: "addNode_then_deleteNode node requestedName nodeType = Inr ?p'"
    by (simp add: addNode_then_deleteNode_def add dl)
  have "children (model node) \<noteq> None \<longrightarrow> ?p' = node"
    using d by (cases node; cases "model node") (auto simp: set_data_def set_model_def set_children_def)
  with r d show ?thesis by simp
qed

theorem addNode_deleteNode_roundtrip_witness:
  "data ex_menu = JObj [(''a'', JObj [(''title'', JStr ''First'')])]
   \<and> findNewNodeName' ex_menu ''B'' 1 = ''B''
   \<and> slugify ''B'' \<notin> own_keys (data ex_menu)
   \<and> addNode_then_deleteNode ex_menu ''B'' TYPE_LIST_OBJECT = Inr ex_menu"
proof -
  have h1: "data ex_menu = JObj [(''a'', JObj [(''title'', JStr ''First'')])]" by (simp add: ex_menu_def)
  have n: "findNewNodeName' ex_menu ''B'' 1 = ''B''"
    using findNewNodeName'_free[of "''B''" 1 ex_menu]
    by (simp add: sibling_names_def ex_menu_def fullName_1)
  have h2: "slugify (findNewNodeName' ex_menu ''B'' 1) \<notin> own_keys (data ex_menu)"
    unfolding n by (simp add: ex_menu_def engine_defs)
  have c: "children (model ex_menu) \<noteq> None" by (simp add: ex_menu_def)
  from addNode_deleteNode_roundtrip[OF h1 h2, of TYPE_LIST_OBJECT] c h1 h2 n show ?thesis by auto
qed

text \<open>
  The claim as stated, for every parent and every requested name, does not hold: names
  are compared as they are displayed, data keys are slugs. A child named \<open>a\<close> added next
  to a child named \<open>A\<close> takes over the data key \<open>a\<close>, and deleting it again deletes the
  data of \<open>A\<close>.
\<close>

theorem addNode_deleteNode_slug_collision:
  "data ex_menu = JObj [(''a'', JObj [(''title'', JStr ''First'')])]
   \<and> sibling_names ex_menu = {''A''}
   \<and> addNode_then_deleteNode ex_menu ''a'' TYPE_TREE = Inr (set_data (JObj []) ex_menu)"
proof -
  have n: "findNewNodeName' ex_menu ''a'' 1 = ''a''"
    using findNewNodeName'_free[of "''a''" 1 ex_menu]
    by (simp add: sibling_names_def ex_menu_def fullName_1)
  have "addNode_then_deleteNode ex_menu ''a'' TYPE_TREE = Inr (set_data (JObj []) ex_menu)"
    unfolding addNode_then_deleteNode_def addNode_def n
    by (simp add: deleteNode_def ex_menu_def engine_defs Let_def)
  then show ?thesis by (simp add: sibling_names_def ex_menu_def)
qed

text \<open>
  Claim C4, amended. For every parent node whose data is an object, every requested name
  and every node type, \<open>addNode\<close> returns a projection whose display name is the first
  of \<open>requestedName\<close>, \<open>requestedName (2)\<close>, \<open>requestedName (3)\<close>, ... that is the
  display name of no existing child, and the parent then has that name among its
  children's. So on a parent none of whose children is named \<open>A\<close>, \<open>A (2)\<close> or
  \<open>A (3)\<close>, three calls \<open>addNode(parent, "A", TREE)\<close> give the names \<open>A\<close>, \<open>A (2)\<close>
  and \<open>A (3)\<close>.
\<close>

theorem addNode_name_collision:
  "data node = JObj kvs \<longrightarrow>
     (\<exists>proj p' k. addNode node requestedName nodeType = Inr proj \<and> parent proj = Some p'
           \<and> 1 \<le> k \<and> name (model proj) = fullName requestedName k
           \<and> fullName requestedName k \<notin> sibling_names node
           \<and> (\<forall>j. 1 \<le> j \<and> j < k \<longrightarrow> fullName requestedName j \<in> sibling_names node)
           \<and> sibling_names p' = insert (fullName requestedName k) (sibling_names node))
   \<and> (''A'' \<notin> sibling_names node \<and> ''A (2)'' \<notin> sibling_names node \<and> ''A (3)'' \<notin> sibling_names node
        \<longrightarrow> (\<exists>proj1 p1 proj2 p2 proj3.
               addNode node ''A'' TYPE_TREE = Inr proj1 \<and> name (model proj1) = ''A'' \<and> parent proj1 = Some p1
             \<and> addNode p1 ''A'' TYPE_TREE = Inr proj2 \<and> name (model proj2) = ''A (2)'' \<and> parent proj2 = Some p2
             \<and> addNode p2 ''A'' TYPE_TREE = Inr proj3 \<and> name (model proj3) = ''A (3)''))"
proof (intro impI conjI)
  assume d: "data node = JObj kvs"
  from addNode_name[OF d, of requestedName nodeType]
  show "\<exists>proj p' k. addNode node requestedName nodeType = Inr proj \<and> parent proj = Some p'
           \<and> 1 \<le> k \<and> name (model proj) = fullName requestedName k
           \<and> fullName requestedName k \<notin> sibling_names node
           \<and> (\<forall>j. 1 \<le> j \<and> j < k \<longrightarrow> fullName requestedName j \<in> sibling_names node)
           \<and> sibling_names p' = insert (fullName requestedName k) (sibling_names node)"
    by blast
next
  assume d: "data node = JObj kvs"
    and free: "''A'' \<notin> sibling_names node \<and> ''A (2)'' \<notin> sibling_names node \<and> ''A (3)'' \<notin> sibling_names node"
  let ?S = "sibling_names node"
  from addNode_name[OF d, of "''A''" TYPE_TREE] obtain proj1 p1 kvs1 k1 where
    a1: "addNode node ''A'' TYPE_TREE = Inr proj1" "parent proj1 = Some p1" "data p1 = JObj kvs1"
    and k1: "1 \<le> k1" "name (model proj1) = fullName ''A'' k1" "fullName ''A'' k1 \<notin> ?S"
      "\<forall>j. 1 \<le> j \<and> j < k1 \<longrightarrow> fullName ''A'' j \<in> ?S"
      "sibling_names p1 = insert (fullName ''A'' k1) ?S" by blast
  have f1: "fullName ''A'' 1 \<notin> ?S" using free by (simp add: fullName_1)
  have "k1 \<le> 1" by (rule first_free_unique[OF k1(1,3,4) order_refl f1])
  with k1(1) have k1eq: "k1 = 1" by arith
  have n1: "name (model proj1) = ''A''" and s1: "sibling_names p1 = insert ''A'' ?S"
    using k1(2,5) unfolding k1eq by (simp_all only: fullName_1)
  from addNode_name[OF a1(3), of "''A''" TYPE_TREE] obtain proj2 p2 kvs2 k2 where
    a2: "addNode p1 ''A'' TYPE_TREE = Inr proj2" "parent proj2 = Some p2" "data p2 = JObj kvs2"
    and k2: "1 \<le> k2" "name (model proj2) = fullName ''A'' k2" "fullName ''A'' k2 \<notin> sibling_names p1"
      "\<forall>j. 1 \<le> j \<and> j < k2 \<longrightarrow> fullName ''A'' j \<in> sibling_names p1"
      "sibling_names p2 = insert (fullName ''A'' k2) (sibling_names p1)" by blast
  have f2: "fullName ''A'' 2 \<notin> sibling_names p1"
    using free unfolding s1 fullName_A by simp
  have "k2 \<le> 2" by (rule first_free_unique[OF k2(1,3,4) _ f2]) simp
  moreover have "k2 \<noteq> 1"
  proof
    assume "k2 = 1"
    with k2(3) have "''A'' \<notin> sibling_names p1" by (simp add: fullName_1)
    then show False unfolding s1 by simp
  qed
  ultimately have k2eq: "k2 = 2" using k2(1) by arith
  have n2: "name (model proj2) = ''A (2)''" and s2: "sibling_names p2 = insert ''A (2)'' (insert ''A'' ?S)"
    using k2(2,5) unfolding k2eq s1 by (simp_all only: fullName_A)
  from addNode_name[OF a2(3), of "''A''" TYPE_TREE] obtain proj3 p3 kvs3 k3 where
    a3: "addNode p2 ''A'' TYPE_TREE = Inr proj3"
    and k3: "1 \<le> k3" "name (model proj3) = fullName ''A'' k3" "fullName ''A'' k3 \<notin> sibling_names p2"
      "\<forall>j. 1 \<le> j \<and> j < k3 \<longrightarrow> fullName ''A'' j \<in> sibling_names p2" by blast
  have f3: "fullName ''A'' 3 \<notin> sibling_names p2"
    using free unfolding s2 fullName_A by simp
  have "k3 \<le> 3" by (rule first_free_unique[OF k3(1,3,4) _ f3]) simp
  moreover have "k3 \<noteq> 1"
  proof
    assume "k3 = 1"
    with k3(3) have "''A'' \<notin> sibling_names p2" by (simp add: fullName_1)
    then show False unfolding s2 by simp
  qed
  moreover have "k3 \<noteq> 2"
  proof
    assume "k3 = 2"
    with k3(3) have "''A (2)'' \<notin> sibling_names p2" by (simp add: fullName_A)
    then show False unfolding s2 by simp
  qed
  ultimately have k3eq: "k3 = 3" using k3(1) by arith
  have n3: "name (model proj3) = ''A (3)''" using k3(2) unfolding k3eq by (simp add: fullName_A)
  from a1 n1 a2 n2 a3 n3
  show "\<exists>proj1 p1 proj2 p2 proj3.
               addNode node ''A'' TYPE_TREE = Inr proj1 \<and> name (model proj1) = ''A'' \<and> parent proj1 = Some p1
             \<and> addNode p1 ''A'' TYPE_TREE = Inr proj2 \<and> name (model proj2) = ''A (2)'' \<and> parent proj2 = Some p2
             \<and> addNode p2 ''A'' TYPE_TREE = Inr proj3 \<and> name (model proj3) = ''A (3)''"
    by blast
qed

theorem addNode_name_collision_witness:
  "data ex_empty = JObj [] \<and> sibling_names ex_empty = {}
   \<and> (\<exists>proj1 p1 proj2 p2 proj3.
               addNode ex_empty ''A'' TYPE_TREE = Inr proj1 \<and> name (model proj1) = ''A'' \<and> parent proj1 = Some p1
             \<and> addNode p1 ''A'' TYPE_TREE = Inr proj2 \<and> name (model proj2) = ''A (2)'' \<and> parent proj2 = Some p2
             \<and> addNode p2 ''A'' TYPE_TREE = Inr proj3 \<and> name (model proj3) = ''A (3)'')"
proof -
  have d: "data ex_empty = JObj []" by (simp add: ex_empty_def)
  have s: "sibling_names ex_empty = {}" by (simp add: ex_empty_def sibling_names_def)
  from addNode_name_collision[of ex_empty "[]" "''A''" TYPE_TREE] d s show ?thesis by simp
qed

text \<open>
  The claim as stated, for every parent node, does not hold: on a parent that has a child
  named \<open>A\<close> already, the first call gives \<open>A (2)\<close>.
\<close>

theorem addNode_name_taken:
  "sibling_names ex_menu = {''A''}
   \<and> addNode ex_menu ''A'' TYPE_TREE =
       Inr (Node (Model ''A (2)'' (Some []) (Some TYPE_TREE) None None) (JObj [])
              (Some (Node (Model ''Menu''
                             (Some [Model ''A'' (Some []) (Some TYPE_TREE) None None,
                                    Model ''A (2)'' (Some []) (Some TYPE_TREE) None None])
                             (Some TYPE_TREE) None None)
                       (JObj [(''a'', JObj [(''title'', JStr ''First'')]), (''a_(2)'', JObj [])])
                       None (Some ''menu'') (Some ''menu'') (IdxNum (- 1)) None))
              (Some ''menu/a_(2)'') (Some ''menu/a_(2)'') (IdxNum (- 1)) None)"
proof -
  have s: "sibling_names ex_menu = {''A''}" by (simp add: sibling_names_def ex_menu_def)
  have "findNewNodeName' ex_menu ''A'' 1 = findNewNodeName' ex_menu ''A'' (1 + 1)"
    by (rule findNewNodeName'_taken) (simp add: s fullName_1)
  also have "\<dots> = findNewNodeName' ex_menu ''A'' 2" by (simp add: numeral_2_eq_2)
  also have "\<dots> = fullName ''A'' 2"
    by (rule findNewNodeName'_free) (simp add: s fullName_A)
  finally have n: "findNewNodeName' ex_menu ''A'' 1 = ''A (2)''" by (simp add: fullName_A)
  have sl: "slugify ''A (2)'' = ''a_(2)''" by (simp add: engine_defs)
  have "addNode ex_menu ''A'' TYPE_TREE =
       Inr (Node (Model ''A (2)'' (Some []) (Some TYPE_TREE) None None) (JObj [])
              (Some (Node (Model ''Menu''
                             (Some [Model ''A'' (Some []) (Some TYPE_TREE) None None,
                                    Model ''A (2)'' (Some []) (Some TYPE_TREE) None None])
                             (Some TYPE_TREE) None None)
                       (JObj [(''a'', JObj [(''title'', JStr ''First'')]), (''a_(2)'', JObj [])])
                       None (Some ''menu'') (Some ''menu'') (IdxNum (- 1)) None))
              (Some ''menu/a_(2)'') (Some ''menu/a_(2)'') (IdxNum (- 1)) None)"
    unfolding addNode_def n
    by (simp add: sl Let_def ex_menu_def set_children_def set_model_def set_data_def path_str_def
        own_store_def)
  with s show ?thesis by simp
qed

section \<open>Resolving paths\<close>

lemma getNodeType_modelType: "getNodeType n = modelType (model n)"
  by (simp add: getNodeType_def modelType_def)

lemma treePathAndIndex'_descend:
  "descend n pre = Some m \<Longrightarrow>
   treePathAndIndex' n (pre @ rest) r = treePathAndIndex' m rest (r\<lparr>tree_path := tree_path r @ pre\<rparr>)"
proof (induction pre arbitrary: n r)
  case Nil
  then show ?case by simp
next
  case (Cons p pre)
  from Cons.prems obtain c where hc: "has_children n" and fc: "findChild' n p = Inr c"
    and d: "descend c pre = Some m"
    by (auto split: if_splits sum.splits)
  from Cons.IH[OF d] hc fc show ?case by simp
qed

lemma findChild'_found:
  assumes "children (model n) = Some cs" and "find (\<lambda>c. slugify (name c) = p) cs = Some m"
    and "data n = JObj kvs"
  shows "findChild' n p =
           Inr (Node m (lookup_prop kvs p) (Some n)
                  (Some (path_str (path n) @ ''/'' @ p)) (Some (path_str (path n) @ ''/'' @ p))
                  IdxMissing (Some (- 1)))"
    and "has_children n"
  using assms by (auto simp: findChild'_def has_children_def Let_def)

lemma findChild'_none:
  assumes "children (model n) = Some cs" and "\<forall>c\<in>set cs. slugify (name c) \<noteq> p"
  shows "findChild' n p = Inl CouldNotFindChildWithSlug"
proof -
  from assms(2) have "find (\<lambda>c. slugify (name c) = p) cs = None" by (simp add: find_None_iff)
  with assms(1) show ?thesis by (simp add: findChild'_def)
qed

lemma leaf_selector:
  assumes "\<not> has_children n"
  shows "treePathAndIndex' n (p # rest) r =
           (if getNodeType n = TYPE_LIST_OBJECT then Inr (r\<lparr>data_index := parsed_index p\<rparr>)
            else if getNodeType n = TYPE_MAP_OBJECT \<or> getNodeType n = TYPE_MAP_STRING
              then Inr (r\<lparr>data_index := IdxKey p\<rparr>)
            else Inl NoChildForPath)"
  using assms by simp

lemma split_on_no_sep: "c \<notin> set s \<Longrightarrow> split_on c s = [s]"
  by (induction s) auto

lemma parseInt_5: "parsed_index ''5'' = IdxNum 5"
  by (simp add: parsed_index_def parseInt_def is_space_def is_digit_def digit_val_def digits_val_def)

lemma split_foo_bar_5: "path_segments (PStr ''foo/bar/5'') = [''foo'', ''bar'', ''5'']"
  by (simp add: path_segments_def)

text \<open>
  Claim C5, amended. \<open>_findChild\<close> builds the projection of a child with its data,
  which it reads in the data of the parent. So let the first child of the tree slugged
  \<open>foo\<close> have a first child slugged \<open>bar\<close> that has no schema children, and let the
  tree's data be an object that holds an object under \<open>foo\<close>. If \<open>bar\<close> is a
  LIST_OBJECT then \<open>treePathAndIndex(tree, "foo/bar/5")\<close> returns the tree path
  \<open>foo/bar\<close> and the data index 5, and in general the selector as \<open>parseInt\<close>
  reads it; if \<open>bar\<close> is a MAP_OBJECT or MAP_STRING the data index is the selector as
  it is. And at every node the walk reaches with a segment left: if the node has schema
  children and none is slugged as the segment, the call throws
  \<open>Could not find child with slug\<close>, and if it is a TREE with no schema children the call
  throws \<open>No child for path\<close>; the two are the spec's \<open>NotFoundError\<close>.
\<close>

theorem treePathAndIndex_resolves:
  "(children (model tree) = Some cs \<and> find (\<lambda>c. slugify (name c) = ''foo'') cs = Some mfoo
      \<and> children mfoo = Some cs2 \<and> find (\<lambda>c. slugify (name c) = ''bar'') cs2 = Some mbar
      \<and> (children mbar = None \<or> children mbar = Some [])
      \<and> data tree = JObj kvs \<and> map_of kvs ''foo'' = Some (JObj kvs2)
    \<longrightarrow>
      (modelType mbar = TYPE_LIST_OBJECT \<longrightarrow>
         treePathAndIndex tree (PStr ''foo/bar/5'') =
           Inr \<lparr>fullPath = PStr ''foo/bar/5'', tree_path = ''foo/bar'', data_index = IdxNum 5\<rparr>
         \<and> (\<forall>sel. treePathAndIndex tree (PArr [''foo'', ''bar'', sel]) =
               Inr \<lparr>fullPath = PArr [''foo'', ''bar'', sel], tree_path = ''foo/bar'',
                    data_index = parsed_index sel\<rparr>))
      \<and> (modelType mbar = TYPE_MAP_OBJECT \<or> modelType mbar = TYPE_MAP_STRING \<longrightarrow>
           (\<forall>sel. treePathAndIndex tree (PArr [''foo'', ''bar'', sel]) =
               Inr \<lparr>fullPath = PArr [''foo'', ''bar'', sel], tree_path = ''foo/bar'',
                    data_index = IdxKey sel\<rparr>)))
   \<and> (descend tree pre = Some n \<and> path_segments pathArg = pre @ p # rest \<longrightarrow>
        (children (model n) = Some cs' \<and> cs' \<noteq> [] \<and> (\<forall>c\<in>set cs'. slugify (name c) \<noteq> p)
           \<longrightarrow> treePathAndIndex tree pathArg = Inl CouldNotFindChildWithSlug)
      \<and> (\<not> has_children n \<and> getNodeType n = TYPE_TREE
           \<longrightarrow> treePathAndIndex tree pathArg = Inl NoChildForPath))"
proof (intro conjI impI allI)
  assume h: "children (model tree) = Some cs \<and> find (\<lambda>c. slugify (name c) = ''foo'') cs = Some mfoo
      \<and> children mfoo = Some cs2 \<and> find (\<lambda>c. slugify (name c) = ''bar'') cs2 = Some mbar
      \<and> (children mbar = None \<or> children mbar = Some [])
      \<and> data tree = JObj kvs \<and> map_of kvs ''foo'' = Some (JObj kvs2)"
  define foo where "foo = Node mfoo (JObj kvs2) (Some tree)
                  (Some (path_str (path tree) @ ''/'' @ ''foo'')) (Some (path_str (path tree) @ ''/'' @ ''foo''))
                  IdxMissing (Some (- 1))"
  define bar where "bar = Node mbar (lookup_prop kvs2 ''bar'') (Some foo)
                  (Some (path_str (path foo) @ ''/'' @ ''bar'')) (Some (path_str (path foo) @ ''/'' @ ''bar''))
                  IdxMissing (Some (- 1))"
  from h have f1: "findChild' tree ''foo'' = Inr foo" and c1: "has_children tree"
    using findChild'_found[of tree cs "''foo''" mfoo kvs] by (simp_all add: foo_def lookup_prop_def)
  have foo: "children (model foo) = Some cs2" "data foo = JObj kvs2"
    using h by (simp_all add: foo_def)
  from h have f2: "findChild' foo ''bar'' = Inr bar" and c2: "has_children foo"
    using findChild'_found[OF foo(1) _ foo(2), of "''bar''" mbar] by (simp_all add: bar_def)
  from h have c3: "\<not> has_children bar" by (auto simp: has_children_def bar_def)
  have d: "descend tree [''foo'', ''bar''] = Some bar" by (simp add: f1 c1 f2 c2)
  have walk: "\<And>sel r. treePathAndIndex' tree [''foo'', ''bar'', sel] r =
      treePathAndIndex' bar [sel] (r\<lparr>tree_path := tree_path r @ [''foo'', ''bar'']\<rparr>)"
    using treePathAndIndex'_descend[OF d, of "[sel]" for sel] by simp
  have ty: "getNodeType bar = modelType mbar" by (simp add: getNodeType_modelType bar_def)
  {
    assume l: "modelType mbar = TYPE_LIST_OBJECT"
    show "treePathAndIndex tree (PStr ''foo/bar/5'') =
           Inr \<lparr>fullPath = PStr ''foo/bar/5'', tree_path = ''foo/bar'', data_index = IdxNum 5\<rparr>"
      unfolding treePathAndIndex_def split_foo_bar_5 walk leaf_selector[OF c3] ty l
      by (simp add: parseInt_5)
    fix sel
    show "treePathAndIndex tree (PArr [''foo'', ''bar'', sel]) =
               Inr \<lparr>fullPath = PArr [''foo'', ''bar'', sel], tree_path = ''foo/bar'',
                    data_index = parsed_index sel\<rparr>"
      unfolding treePathAndIndex_def path_segments_def path_arg.case walk leaf_selector[OF c3] ty l
      by simp
  }
  {
    assume m: "modelType mbar = TYPE_MAP_OBJECT \<or> modelType mbar = TYPE_MAP_STRING"
    fix sel
    from m show "treePathAndIndex tree (PArr [''foo'', ''bar'', sel]) =
               Inr \<lparr>fullPath = PArr [''foo'', ''bar'', sel], tree_path = ''foo/bar'',
                    data_index = IdxKey sel\<rparr>"
      unfolding treePathAndIndex_def path_segments_def path_arg.case walk leaf_selector[OF c3] ty
      by auto
  }
next
  assume d: "descend tree pre = Some n \<and> path_segments pathArg = pre @ p # rest"
    and c: "children (model n) = Some cs' \<and> cs' \<noteq> [] \<and> (\<forall>c\<in>set cs'. slugify (name c) \<noteq> p)"
  from c have hc: "has_children n" by (simp add: has_children_def)
  from c have "findChild' n p = Inl CouldNotFindChildWithSlug" by (simp add: findChild'_none)
  with hc d treePathAndIndex'_descend[of tree pre n "p # rest"]
  show "treePathAndIndex tree pathArg = Inl CouldNotFindChildWithSlug"
    by (simp add: treePathAndIndex_def)
next
  assume d: "descend tree pre = Some n \<and> path_segments pathArg = pre @ p # rest"
    and c: "\<not> has_children n \<and> getNodeType n = TYPE_TREE"
  with treePathAndIndex'_descend[of tree pre n "p # rest"]
  show "treePathAndIndex tree pathArg = Inl NoChildForPath"
    by (simp add: treePathAndIndex_def)
qed

theorem treePathAndIndex_resolves_witness:
  "treePathAndIndex ex_tree (PStr ''foo/bar/5'') =
     Inr \<lparr>fullPath = PStr ''foo/bar/5'', tree_path = ''foo/bar'', data_index = IdxNum 5\<rparr>
   \<and> treePathAndIndex ex_tree (PStr ''nope/5'') = Inl CouldNotFindChildWithSlug
   \<and> descend ex_tree [] = Some ex_tree"
proof -
  let ?bar = "Model ''Bar'' None (Some TYPE_LIST_OBJECT) None (Some [Bare ''Name''])"
  let ?cs2 = "[?bar,
               Model ''Labels'' None (Some TYPE_MAP_STRING) None
                 (Some [Structured \<lparr>fname = ''Key'', ftype = None, key = Some True\<rparr>, Bare ''Value'']),
               Model ''Authors'' None (Some TYPE_MAP_OBJECT) None
                 (Some [Structured \<lparr>fname = ''Key'', ftype = None, key = Some True\<rparr>, Bare ''Name''])]"
  let ?foo = "Model ''Foo'' (Some ?cs2) (Some TYPE_TREE) None None"
  let ?cs = "[?foo, Model ''Empty'' (Some []) (Some TYPE_TREE) None None]"
  let ?kvs2 = "[(''bar'', JArr [JObj [(''name'', JStr ''first'')]]),
                (''labels'', JObj [(''ok'', JStr ''OK'')]),
                (''authors'', JObj [(''k1'', JObj [(''name'', JStr ''Ann'')])])]"
  let ?kvs = "[(''foo'', JObj ?kvs2), (''empty'', JObj [])]"
  have h: "children (model ex_tree) = Some ?cs \<and> find (\<lambda>c. slugify (name c) = ''foo'') ?cs = Some ?foo
      \<and> children ?foo = Some ?cs2 \<and> find (\<lambda>c. slugify (name c) = ''bar'') ?cs2 = Some ?bar
      \<and> (children ?bar = None \<or> children ?bar = Some [])
      \<and> data ex_tree = JObj ?kvs \<and> map_of ?kvs ''foo'' = Some (JObj ?kvs2)"
    by (simp add: ex_tree_def engine_defs)
  have t: "modelType ?bar = TYPE_LIST_OBJECT" by (simp add: modelType_def getNodeType_def)
  have d: "descend ex_tree [] = Some ex_tree \<and> path_segments (PStr ''nope/5'') = [] @ ''nope'' # [''5'']"
    by (simp add: path_segments_def)
  have c: "children (model ex_tree) = Some ?cs \<and> ?cs \<noteq> [] \<and> (\<forall>c\<in>set ?cs. slugify (name c) \<noteq> ''nope'')"
    by (simp add: ex_tree_def engine_defs)
  from treePathAndIndex_resolves[of ex_tree ?cs ?foo ?cs2 ?bar ?kvs ?kvs2 "[]" ex_tree
      "PStr ''nope/5''" "''nope''" "[''5'']" ?cs] h t d c
  show ?thesis by blast
qed

text \<open>
  The claim as stated, for every tree with that schema, does not hold: on the schema of
  the example with no data yet, the projection of \<open>foo\<close> has \<open>undefined\<close> as its
  data, and reading the data of \<open>bar\<close> in it is a \<open>TypeError\<close>.
\<close>

theorem treePathAndIndex_needs_data:
  "model ex_schema_only = model ex_tree \<and> data ex_schema_only = JObj []
   \<and> treePathAndIndex ex_tree (PStr ''foo/bar/5'') =
       Inr \<lparr>fullPath = PStr ''foo/bar/5'', tree_path = ''foo/bar'', data_index = IdxNum 5\<rparr>
   \<and> map_option data (descend ex_schema_only [''foo'']) = Some JUndef
   \<and> treePathAndIndex ex_schema_only (PStr ''foo/bar/5'') = Inl TypeError"
proof -
  have sl: "slugify ''Foo'' = ''foo''" "slugify ''Bar'' = ''bar''" "slugify ''Empty'' = ''empty''"
    "slugify ''Labels'' = ''labels''" "slugify ''Authors'' = ''authors''"
    by (simp_all add: engine_defs)
  have a: "model ex_schema_only = model ex_tree \<and> data ex_schema_only = JObj []"
    by (simp add: ex_schema_only_def)
  have b: "treePathAndIndex ex_tree (PStr ''foo/bar/5'') =
       Inr \<lparr>fullPath = PStr ''foo/bar/5'', tree_path = ''foo/bar'', data_index = IdxNum 5\<rparr>"
    unfolding treePathAndIndex_def split_foo_bar_5
    by (simp add: ex_tree_def has_children_def findChild'_def Let_def sl getNodeType_def
        lookup_prop_def parseInt_5)
  have c: "map_option data (descend ex_schema_only [''foo'']) = Some JUndef"
    by (simp add: ex_schema_only_def ex_tree_def has_children_def findChild'_def Let_def sl
        lookup_prop_def inherited_def object_members_def)
  have d: "treePathAndIndex ex_schema_only (PStr ''foo/bar/5'') = Inl TypeError"
    unfolding treePathAndIndex_def split_foo_bar_5
    by (simp add: ex_schema_only_def ex_tree_def has_children_def findChild'_def Let_def sl
        lookup_prop_def inherited_def object_members_def)
  from a b c d show ?thesis by simp
qed

text \<open>
  Claim C10. For every tree and every path: when the walk reaches a LIST_OBJECT,
  MAP_OBJECT or MAP_STRING node with no schema children and two or more segments are
  left, \<open>treePathAndIndex\<close> returns; the tree path is the segments walked, the data index
  is read from the first segment left, and the segments after it have no part in the
  result, which is the one the path cut after that segment gives.
\<close>

theorem treePathAndIndex_ignores_rest:
  assumes d: "descend tree pre = Some n" and leaf: "\<not> has_children n"
    and ty: "getNodeType n = TYPE_LIST_OBJECT \<or> getNodeType n = TYPE_MAP_OBJECT
              \<or> getNodeType n = TYPE_MAP_STRING"
    and segs: "path_segments pathArg = pre @ p # q # rest"
  shows "treePathAndIndex tree pathArg =
           Inr \<lparr>fullPath = pathArg, tree_path = join_with ''/'' pre,
                data_index = (if getNodeType n = TYPE_LIST_OBJECT then parsed_index p else IdxKey p)\<rparr>
         \<and> treePathAndIndex' tree (pre @ p # q # rest) r = treePathAndIndex' tree (pre @ [p]) r"
proof -
  have w: "\<And>xs r. treePathAndIndex' tree (pre @ p # xs) r =
      Inr (r\<lparr>tree_path := tree_path r @ pre,
             data_index := (if getNodeType n = TYPE_LIST_OBJECT then parsed_index p else IdxKey p)\<rparr>)"
    using ty unfolding treePathAndIndex'_descend[OF d] leaf_selector[OF leaf] by auto
  show ?thesis
    unfolding treePathAndIndex_def segs w by simp
qed

theorem treePathAndIndex_ignores_rest_witness:
  "descend ex_tree [''foo'', ''bar''] =
     Some (Node (Model ''Bar'' None (Some TYPE_LIST_OBJECT) None (Some [Bare ''Name'']))
             (JArr [JObj [(''name'', JStr ''first'')]])
             (Some (Node (Model ''Foo''
                      (Some [Model ''Bar'' None (Some TYPE_LIST_OBJECT) None (Some [Bare ''Name'']),
                             Model ''Labels'' None (Some TYPE_MAP_STRING) None
                               (Some [Structured \<lparr>fname = ''Key'', ftype = None, key = Some True\<rparr>, Bare ''Value'']),
                             Model ''Authors'' None (Some TYPE_MAP_OBJECT) None
                               (Some [Structured \<lparr>fname = ''Key'', ftype = None, key = Some True\<rparr>, Bare ''Name''])])
                      (Some TYPE_TREE) None None)
                    (JObj [(''bar'', JArr [JObj [(''name'', JStr ''first'')]]),
                           (''labels'', JObj [(''ok'', JStr ''OK'')]),
                           (''authors'', JObj [(''k1'', JObj [(''name'', JStr ''Ann'')])])])
                    (Some ex_tree) (Some ''/foo'') (Some ''/foo'') IdxMissing (Some (- 1))))
             (Some ''/foo/bar'') (Some ''/foo/bar'') IdxMissing (Some (- 1)))
   \<and> treePathAndIndex ex_tree (PStr ''foo/bar/5/title/x'') =
       Inr \<lparr>fullPath = PStr ''foo/bar/5/title/x'', tree_path = ''foo/bar'', data_index = IdxNum 5\<rparr>"
proof -
  let ?n = "Node (Model ''Bar'' None (Some TYPE_LIST_OBJECT) None (Some [Bare ''Name'']))
             (JArr [JObj [(''name'', JStr ''first'')]])
             (Some (Node (Model ''Foo''
                      (Some [Model ''Bar'' None (Some TYPE_LIST_OBJECT) None (Some [Bare ''Name'']),
                             Model ''Labels'' None (Some TYPE_MAP_STRING) None
                               (Some [Structured \<lparr>fname = ''Key'', ftype = None, key = Some True\<rparr>, Bare ''Value'']),
                             Model ''Authors'' None (Some TYPE_MAP_OBJECT) None
                               (Some [Structured \<lparr>fname = ''Key'', ftype = None, key = Some True\<rparr>, Bare ''Name''])])
                      (Some TYPE_TREE) None None)
                    (JObj [(''bar'', JArr [JObj [(''name'', JStr ''first'')]]),
                           (''labels'', JObj [(''ok'', JStr ''OK'')]),
                           (''authors'', JObj [(''k1'', JObj [(''name'', JStr ''Ann'')])])])
                    (Some ex_tree) (Some ''/foo'') (Some ''/foo'') IdxMissing (Some (- 1))))
             (Some ''/foo/bar'') (Some ''/foo/bar'') IdxMissing (Some (- 1))"
  have d: "descend ex_tree [''foo'', ''bar''] = Some ?n"
    by (simp add: ex_tree_def has_children_def findChild'_def Let_def engine_defs)
  have l: "\<not> has_children ?n" by (simp add: has_children_def)
  have t: "getNodeType ?n = TYPE_LIST_OBJECT \<or> getNodeType ?n = TYPE_MAP_OBJECT
              \<or> getNodeType ?n = TYPE_MAP_STRING" by (simp add: getNodeType_def)
  have s: "path_segments (PStr ''foo/bar/5/title/x'') = [''foo'', ''bar''] @ ''5'' # ''title'' # [''x'']"
    by (simp add: path_segments_def)
  have t': "getNodeType ?n = TYPE_LIST_OBJECT" by (simp add: getNodeType_def)
  from treePathAndIndex_ignores_rest[OF d l t s] d show ?thesis
    unfolding t' by (simp add: parseInt_5)
qed

text \<open>
  Claim C8, amended. For every MAP_OBJECT or MAP_STRING node whose data is an object, and
  every key \<open>k1\<close> given as the first segment of a sequence or as a path string (not
  empty, no slash), \<open>findNode\<close> returns a projection of the same schema node whose
  \<open>dataIndex\<close> is the string \<open>k1\<close>. Its data is the stored value when that is truthy,
  as every object is, and as every string is that is not empty. Its data is the empty
  object (for a MAP_STRING the empty string) when the stored value is not truthy, and
  when the key is absent and is not the name of a member that every object inherits from
  \<open>Object.prototype\<close>.
\<close>

theorem findNode_map_item:
  assumes ty: "getNodeType node = TYPE_MAP_OBJECT \<or> getNodeType node = TYPE_MAP_STRING"
    and d: "data node = JObj kvs"
    and pa: "pathArg = PArr (k1 # rest) \<or> (pathArg = PStr k1 \<and> k1 \<noteq> [] \<and> CHR ''/'' \<notin> set k1)"
  shows "\<exists>proj. findNode node pathArg = Inr proj
           \<and> dataIndex proj = IdxKey k1
           \<and> model proj = model node \<and> parent proj = Some node
           \<and> path proj = Some (path_under (path node) k1) \<and> treePath proj = path node
           \<and> (map_of kvs k1 = None \<and> \<not> inherited_name k1 \<longrightarrow>
                data proj = (if getNodeType node = TYPE_MAP_OBJECT then JObj [] else JStr []))
           \<and> (\<forall>v. map_of kvs k1 = Some v \<and> truthy v \<longrightarrow> data proj = v)
           \<and> (\<forall>v. map_of kvs k1 = Some v \<and> \<not> truthy v \<longrightarrow>
                data proj = (if getNodeType node = TYPE_MAP_OBJECT then JObj [] else JStr []))
           \<and> (\<forall>fs. map_of kvs k1 = Some (JObj fs) \<longrightarrow> data proj = JObj fs)
           \<and> (\<forall>s. getNodeType node = TYPE_MAP_STRING \<and> map_of kvs k1 = Some (JStr s) \<longrightarrow> data proj = JStr s)"
proof -
  from pa have "findNode node pathArg = findNode' node (k1 # rest) \<or> findNode node pathArg = findNode' node [k1]"
    by (auto simp: findNode_def split_on_no_sep)
  moreover have "\<And>xs. findNode' node (k1 # xs) =
      Inr (Node (model node)
             (if truthy (lookup_prop kvs k1) then lookup_prop kvs k1
              else if getNodeType node = TYPE_MAP_OBJECT then JObj [] else JStr [])
             (Some node) (Some (path_under (path node) k1)) (path node) (IdxKey k1) None)"
    using ty d by auto
  moreover have "map_of kvs k1 = None \<and> \<not> inherited_name k1 \<longrightarrow> lookup_prop kvs k1 = JUndef"
    by (simp add: lookup_prop_def inherited_def inherited_name_def)
  moreover have "\<And>v. map_of kvs k1 = Some v \<Longrightarrow> lookup_prop kvs k1 = v"
    by (simp add: lookup_prop_def)
  ultimately show ?thesis by auto
qed

theorem findNode_map_item_witness:
  "\<not> inherited_name ''k2''
   \<and> findNode ex_authors (PStr ''k1'') =
     Inr (Node (model ex_authors) (JObj [(''name'', JStr ''Ann'')]) (Some ex_authors)
            (Some ''foo/authors/k1'') (Some ''foo/authors'') (IdxKey ''k1'') None)
   \<and> findNode ex_authors (PStr ''k2'') =
     Inr (Node (model ex_authors) (JObj []) (Some ex_authors)
            (Some ''foo/authors/k2'') (Some ''foo/authors'') (IdxKey ''k2'') None)"
proof -
  have t: "getNodeType ex_authors = TYPE_MAP_OBJECT \<or> getNodeType ex_authors = TYPE_MAP_STRING"
    by (simp add: ex_authors_def getNodeType_def)
  have d: "data ex_authors = JObj [(''k1'', JObj [(''name'', JStr ''Ann'')])]" by (simp add: ex_authors_def)
  have p1: "PStr ''k1'' = PArr (''k1'' # []) \<or> (PStr ''k1'' = PStr ''k1'' \<and> ''k1'' \<noteq> [] \<and> CHR ''/'' \<notin> set ''k1'')"
    by simp
  have p2: "PStr ''k2'' = PArr (''k2'' # []) \<or> (PStr ''k2'' = PStr ''k2'' \<and> ''k2'' \<noteq> [] \<and> CHR ''/'' \<notin> set ''k2'')"
    by simp
  have n: "\<not> inherited_name ''k2''" by (simp add: inherited_name_def object_members_def)
  have e1: "findNode ex_authors (PStr ''k1'') =
     Inr (Node (model ex_authors) (JObj [(''name'', JStr ''Ann'')]) (Some ex_authors)
            (Some ''foo/authors/k1'') (Some ''foo/authors'') (IdxKey ''k1'') None)"
    using findNode_map_item[OF t d p1]
    by (auto simp: findNode_def ex_authors_def getNodeType_def path_under_def)
  have e2: "findNode ex_authors (PStr ''k2'') =
     Inr (Node (model ex_authors) (JObj []) (Some ex_authors)
            (Some ''foo/authors/k2'') (Some ''foo/authors'') (IdxKey ''k2'') None)"
    using findNode_map_item[OF t d p2] n
    by (auto simp: findNode_def ex_authors_def getNodeType_def path_under_def)
  from n e1 e2 show ?thesis by simp
qed

text \<open>
  The claim as stated, for every path segment, does not hold: a read of a key that the
  object does not hold finds what the object inherits under that name. The map of the
  example has no key \<open>constructor\<close>, and the projection \<open>findNode\<close> returns for that
  segment has as its data the function \<open>Object\<close>, not the empty object.
\<close>

theorem findNode_inherited_member:
  "getNodeType ex_authors = TYPE_MAP_OBJECT
   \<and> own_keys (data ex_authors) = {''k1''}
   \<and> findNode ex_authors (PStr ''constructor'') =
     Inr (Node (model ex_authors) (JNative ''Object'') (Some ex_authors)
            (Some ''foo/authors/constructor'') (Some ''foo/authors'') (IdxKey ''constructor'') None)"
  by (simp add: findNode_def ex_authors_def getNodeType_def path_under_def own_keys_def
      lookup_prop_def inherited_def object_members_def)


end
